theory Spec2Isabelle
  imports Main "HOL-Library.AList"
begin

section \<open>The JavaScript platform as far as the services use it\<close>

text \<open>
  Exceptions are values: a thrown object carries a name and a message, and the template
  literal \<^verbatim>\<open>`${error}`\<close> prints it with \<^verbatim>\<open>Error.prototype.toString\<close>: as
  \<^verbatim>\<open>name: message\<close>, or as the one of the two that is not empty.
  A computation that may throw returns \<open>js_error + 'a\<close>, with \<open>Inl\<close> the throw.
\<close>

datatype js_error = JsError (err_name: string) (message: string)

definition toString :: "js_error \<Rightarrow> string" where
  "toString e =
     (if err_name e = [] then message e
      else if message e = [] then err_name e
      else err_name e @ '': '' @ message e)"

definition try_catch :: "(js_error + 'a) \<Rightarrow> (js_error \<Rightarrow> js_error + 'a) \<Rightarrow> js_error + 'a" where
  "try_catch body handler = (case body of Inl e \<Rightarrow> handler e | Inr v \<Rightarrow> Inr v)"

definition bind_err :: "(js_error + 'a) \<Rightarrow> ('a \<Rightarrow> js_error + 'b) \<Rightarrow> js_error + 'b" where
  "bind_err m f = (case m of Inl e \<Rightarrow> Inl e | Inr v \<Rightarrow> f v)"

text \<open>
  \<^verbatim>\<open>localStorage\<close>: string keys to string values. Reading throws when the storage is
  not accessible (\<open>readable\<close> is false), writing throws when the browser refuses the value
  (\<open>accepts\<close>, the quota).
\<close>

record localStorage =
  items :: "string \<Rightarrow> string option"
  readable :: bool
  accepts :: "string \<Rightarrow> string \<Rightarrow> bool"

definition getItem :: "localStorage \<Rightarrow> string \<Rightarrow> js_error + string option" where
  "getItem ls k = (if readable ls then Inr (items ls k)
                   else Inl (JsError ''SecurityError'' ''The operation is insecure.''))"

definition setItem :: "localStorage \<Rightarrow> string \<Rightarrow> string \<Rightarrow> js_error + localStorage" where
  "setItem ls k v = (if accepts ls k v then Inr (ls\<lparr>items := (items ls)(k \<mapsto> v)\<rparr>)
                     else Inl (JsError ''QuotaExceededError'' ''The quota has been exceeded.''))"

definition removeItem :: "localStorage \<Rightarrow> string \<Rightarrow> localStorage" where
  "removeItem ls k = ls\<lparr>items := (items ls)(k := None)\<rparr>"

text \<open>
  \<^verbatim>\<open>JSON.stringify\<close> and \<^verbatim>\<open>JSON.parse\<close> are the platform's; they are parameters of the
  model. \<open>parse\<close> tells apart the four things the services react to differently: a
  \<^verbatim>\<open>SyntaxError\<close>, the value \<^verbatim>\<open>null\<close>, a value of another shape than the expected
  document (a number, a boolean, a plain object where an array is expected), and a
  document of the expected shape. A stored JSON string, and a JSON array where a cache
  object is expected, are left out of the model.
\<close>

datatype 'a parsed = ParseError | ParsedNull | ParsedOther | Parsed 'a

record ('v, 'a) json_codec =
  stringify :: "'v \<Rightarrow> string"
  parse :: "string \<Rightarrow> 'a parsed"

definition syntax_error :: js_error where
  "syntax_error = JsError ''SyntaxError'' ''Unexpected token in JSON''"

definition type_error :: "string \<Rightarrow> js_error" where
  "type_error what = JsError ''TypeError'' what"

text \<open>
  A natural number in decimal digits, and an integer as a template literal prints it.
\<close>

fun decimal :: "nat \<Rightarrow> string" where
  "decimal n = (if n < 10 then [char_of (48 + n)]
                else decimal (n div 10) @ [char_of (48 + n mod 10)])"

declare decimal.simps [simp del]

definition show_int :: "int \<Rightarrow> string" where
  "show_int i = (if i < 0 then CHR ''-'' # decimal (nat (- i)) else decimal (nat i))"

subsection \<open>JSON text\<close>








text \<open>
  \<^verbatim>\<open>JSON.parse\<close> on the texts of these values. \<open>None\<close> is the
  \<^verbatim>\<open>SyntaxError\<close>; it is also the answer for a text the values above cannot hold: a
  number with a fraction or an exponent, and a \<^verbatim>\<open>\u\<close> escape beyond ASCII. White
  space (space, tab, line feed, carriage return) may stand around every token. A number
  has no leading zero.
\<close>

definition is_space :: "char \<Rightarrow> bool" where
  "is_space c \<longleftrightarrow> c = CHR 0x20 \<or> c = CHR 0x09 \<or> c = CHR 0x0A \<or> c = CHR 0x0D"

















section \<open>OfflineQueueService\<close>

datatype op_type = CREATE_REPORT | UPDATE_PROFILE | DELETE_REPORT | OTHER_TYPE string

text \<open>
  The fields \<^verbatim>\<open>id\<close> and \<^verbatim>\<open>type\<close> are \<open>op_id\<close> and \<open>op_type\<close>. \<open>data\<close> is
  \<^verbatim>\<open>any\<close> in the source; \<open>None\<close> is a payload that cannot be destructured
  (\<^verbatim>\<open>null\<close> or \<^verbatim>\<open>undefined\<close>).
\<close>

record 'd QueuedOperation =
  op_id :: string
  op_type :: op_type
  data :: "'d option"
  timestamp :: int
  retryCount :: int

text \<open>
  The field \<^verbatim>\<open>queue\<close> is declared an array, but \<^verbatim>\<open>loadQueueFromStorage\<close> assigns
  whatever \<^verbatim>\<open>JSON.parse\<close> returns: \<open>NotIterable\<close> is a number, a boolean or a plain
  object, which has no \<^verbatim>\<open>length\<close>, \<^verbatim>\<open>push\<close> or \<^verbatim>\<open>filter\<close> and cannot be spread.
\<close>

datatype 'd queue_value = NotIterable | Ops "'d QueuedOperation list"

record OfflineStatus =
  isOnline :: bool
  lastOnlineTime :: "int option"
  queuedOperations :: "nat option"

record 'd OfflineQueueService =
  queue :: "'d queue_value"
  isOnline :: bool
  processingQueue :: bool

definition STORAGE_KEY :: string where
  "STORAGE_KEY = ''alerta_ilo_offline_queue''"

definition MAX_RETRY_COUNT :: int where
  "MAX_RETRY_COUNT = 3"

text \<open>\<^verbatim>\<open>this.queue.length\<close>; \<open>None\<close> is \<^verbatim>\<open>undefined\<close>.\<close>

fun queue_length :: "'d queue_value \<Rightarrow> nat option" where
  "queue_length NotIterable = None"
| "queue_length (Ops ops) = Some (length ops)"

text \<open>\<^verbatim>\<open>getStatus\<close>; \<open>now\<close> is the reading of \<^verbatim>\<open>Date.now()\<close>.\<close>

definition getStatus :: "'d OfflineQueueService \<Rightarrow> int \<Rightarrow> OfflineStatus" where
  "getStatus q now =
     \<lparr> OfflineStatus.isOnline = OfflineQueueService.isOnline q,
       lastOnlineTime = (if OfflineQueueService.isOnline q then Some now else None),
       queuedOperations = queue_length (queue q) \<rparr>"

text \<open>The handlers of the window's \<^verbatim>\<open>online\<close> and \<^verbatim>\<open>offline\<close> events, as far as they
  change the service's own fields.\<close>

definition on_online :: "'d OfflineQueueService \<Rightarrow> 'd OfflineQueueService" where
  "on_online q = q\<lparr>OfflineQueueService.isOnline := True\<rparr>"

definition on_offline :: "'d OfflineQueueService \<Rightarrow> 'd OfflineQueueService" where
  "on_offline q = q\<lparr>OfflineQueueService.isOnline := False\<rparr>"

type_synonym 'd queue_codec = "('d queue_value, 'd QueuedOperation list) json_codec"

text \<open>
  The \<^verbatim>\<open>try\<close> block of \<^verbatim>\<open>loadQueueFromStorage\<close>. An absent item and the empty string
  are falsy and leave the queue alone. \<^verbatim>\<open>null\<close> is assigned and then the log line's
  \<^verbatim>\<open>this.queue.length\<close> throws.
\<close>

definition loadQueueFromStorage_try ::
  "'d queue_codec \<Rightarrow> localStorage \<Rightarrow> 'd OfflineQueueService \<Rightarrow> js_error + 'd OfflineQueueService"
where
  "loadQueueFromStorage_try cdc ls q =
     bind_err (getItem ls STORAGE_KEY) (\<lambda>storedQueue.
       case storedQueue of
         None \<Rightarrow> Inr q
       | Some s \<Rightarrow>
           if s = [] then Inr q
           else (case parse cdc s of
                   ParseError \<Rightarrow> Inl syntax_error
                 | ParsedNull \<Rightarrow> Inl (type_error ''Cannot read properties of null'')
                 | ParsedOther \<Rightarrow> Inr (q\<lparr>queue := NotIterable\<rparr>)
                 | Parsed ops \<Rightarrow> Inr (q\<lparr>queue := Ops ops\<rparr>)))"

definition loadQueueFromStorage ::
  "'d queue_codec \<Rightarrow> localStorage \<Rightarrow> 'd OfflineQueueService \<Rightarrow> js_error + 'd OfflineQueueService"
where
  "loadQueueFromStorage cdc ls q =
     try_catch (loadQueueFromStorage_try cdc ls q) (\<lambda>error. Inr (q\<lparr>queue := Ops []\<rparr>))"

definition saveQueueToStorage ::
  "'d queue_codec \<Rightarrow> 'd OfflineQueueService \<Rightarrow> localStorage \<Rightarrow> js_error + localStorage"
where
  "saveQueueToStorage cdc q ls =
     try_catch (setItem ls STORAGE_KEY (stringify cdc (queue q))) (\<lambda>error. Inr ls)"

text \<open>
  The constructor: the field initialisers, then \<^verbatim>\<open>loadQueueFromStorage\<close>
  (\<^verbatim>\<open>initializeOfflineDetection\<close> only registers handlers and a timer).
\<close>

definition new_OfflineQueueService ::
  "'d queue_codec \<Rightarrow> bool \<Rightarrow> localStorage \<Rightarrow> js_error + 'd OfflineQueueService"
where
  "new_OfflineQueueService cdc navigator_onLine ls =
     loadQueueFromStorage cdc ls
       \<lparr> queue = Ops [], OfflineQueueService.isOnline = navigator_onLine, processingQueue = False \<rparr>"

subsection \<open>The queue as JSON text\<close>








subsection \<open>The backend calls of a queued operation\<close>

text \<open>
  What the environment of the services decides: the dynamic import of the authentication
  module and its \<^verbatim>\<open>updateProfile\<close> (\<open>None\<close> means the promise resolves, \<open>Some e\<close>
  that it rejects with \<open>e\<close>), and the \<^verbatim>\<open>TypeError\<close> with which the engine refuses to
  destructure \<^verbatim>\<open>null\<close> or \<^verbatim>\<open>undefined\<close>, given the first property of the pattern;
  its text differs between engines.
\<close>

record 'd backend =
  import_AuthService :: "js_error option"
  updateProfile :: "'d \<Rightarrow> js_error option"
  destructure_error :: "string \<Rightarrow> js_error"

text \<open>The letter o with an acute accent, in UTF-8.\<close>

definition o_acute :: string where
  "o_acute = [CHR 0xC3, CHR 0xB3]"

definition unsupported_type :: "op_type \<Rightarrow> js_error" where
  "unsupported_type t =
     JsError ''Error'' (''Tipo de operaci'' @ o_acute @ ''n no soportado: '' @
       (case t of OTHER_TYPE name \<Rightarrow> name | _ \<Rightarrow> []))"

text \<open>
  \<^verbatim>\<open>executeOperation\<close>: the import comes first for every type; only
  \<^verbatim>\<open>UPDATE_PROFILE\<close> reads the payload.
\<close>

definition executeOperation :: "'d backend \<Rightarrow> 'd QueuedOperation \<Rightarrow> js_error + unit" where
  "executeOperation env operation =
     (case import_AuthService env of
        Some e \<Rightarrow> Inl e
      | None \<Rightarrow>
          (case op_type operation of
             CREATE_REPORT \<Rightarrow> Inr ()
           | UPDATE_PROFILE \<Rightarrow>
               (case data operation of
                  None \<Rightarrow> Inl (destructure_error env ''userId'')
                | Some d \<Rightarrow> (case updateProfile env d of Some e \<Rightarrow> Inl e | None \<Rightarrow> Inr ()))
           | DELETE_REPORT \<Rightarrow> Inr ()
           | OTHER_TYPE name \<Rightarrow> Inl (unsupported_type (OTHER_TYPE name))))"

subsection \<open>The queue service next to the sync coordinator\<close>

text \<open>
  \<^verbatim>\<open>BackgroundSyncService\<close>'s fields; \<open>syncInterval\<close> is true while the timer is armed
  (the field is not \<^verbatim>\<open>null\<close>).
\<close>

record BackgroundSyncService =
  syncInProgress :: bool
  syncInterval :: bool
  lastSyncTime :: "int option"
  errors :: "string list"

record 'd system =
  offlineQueue :: "'d OfflineQueueService"
  backgroundSync :: BackgroundSyncService
  storage :: localStorage

definition startAutoSync :: "BackgroundSyncService \<Rightarrow> BackgroundSyncService" where
  "startAutoSync b = b\<lparr>syncInterval := True\<rparr>"

definition stopAutoSync :: "BackgroundSyncService \<Rightarrow> BackgroundSyncService" where
  "stopAutoSync b = b\<lparr>syncInterval := False\<rparr>"

text \<open>
  The listener the coordinator subscribes to the queue service in
  \<^verbatim>\<open>initializeBackgroundSync\<close>. \<^verbatim>\<open>undefined > 0\<close> is false.
\<close>

definition on_offline_status :: "OfflineStatus \<Rightarrow> BackgroundSyncService \<Rightarrow> BackgroundSyncService" where
  "on_offline_status offlineStatus b =
     (if OfflineStatus.isOnline offlineStatus
          \<and> (case queuedOperations offlineStatus of Some n \<Rightarrow> n > 0 | None \<Rightarrow> False)
      then startAutoSync b
      else if \<not> OfflineStatus.isOnline offlineStatus then stopAutoSync b
      else b)"

text \<open>
  \<^verbatim>\<open>notifyListeners\<close> of the queue service: every listener runs inside its own
  \<^verbatim>\<open>try\<close>; the only listener with an effect on the modelled state is the coordinator's.
\<close>

definition notifyListeners :: "int \<Rightarrow> 'd system \<Rightarrow> 'd system" where
  "notifyListeners now sys =
     sys\<lparr>backgroundSync := on_offline_status (getStatus (offlineQueue sys) now) (backgroundSync sys)\<rparr>"

text \<open>\<^verbatim>\<open>this.saveQueueToStorage()\<close> on the system; the call never throws
  (\<open>saveQueueToStorage_returns\<close> below), so the \<open>Inl\<close> branch is never taken.\<close>

definition save_queue :: "'d queue_codec \<Rightarrow> 'd system \<Rightarrow> 'd system" where
  "save_queue cdc sys =
     (case saveQueueToStorage cdc (offlineQueue sys) (storage sys) of
        Inr ls' \<Rightarrow> sys\<lparr>storage := ls'\<rparr>
      | Inl e \<Rightarrow> sys)"

text \<open>\<^verbatim>\<open>queuedOperation.retryCount++\<close> on the object \<^verbatim>\<open>find\<close> returns: the first one
  with the id.\<close>

fun increment_found :: "string \<Rightarrow> 'd QueuedOperation list \<Rightarrow> 'd QueuedOperation list" where
  "increment_found i [] = []"
| "increment_found i (x # xs) =
     (if op_id x = i then x\<lparr>retryCount := retryCount x + 1\<rparr> # xs
      else x # increment_found i xs)"

text \<open>One turn of the \<^verbatim>\<open>for\<close> loop of \<^verbatim>\<open>processQueue\<close>, on \<^verbatim>\<open>this.queue\<close>.\<close>

definition process_operation ::
  "'d backend \<Rightarrow> 'd QueuedOperation \<Rightarrow> 'd QueuedOperation list \<Rightarrow> 'd QueuedOperation list"
where
  "process_operation env operation q =
     (case executeOperation env operation of
        Inr u \<Rightarrow> filter (\<lambda>op. op_id op \<noteq> op_id operation) q
      | Inl error \<Rightarrow>
          (case find (\<lambda>op. op_id op = op_id operation) q of
             None \<Rightarrow> q
           | Some queuedOperation \<Rightarrow>
               (if retryCount queuedOperation + 1 \<ge> MAX_RETRY_COUNT
                then filter (\<lambda>op. op_id op \<noteq> op_id operation) (increment_found (op_id operation) q)
                else increment_found (op_id operation) q)))"

text \<open>
  \<^verbatim>\<open>processQueue\<close>. The loop runs over a copy of the queue taken at the start. With a
  queue that cannot be spread the promise rejects after \<open>processingQueue\<close> was set.
\<close>

definition processQueue ::
  "'d queue_codec \<Rightarrow> 'd backend \<Rightarrow> int \<Rightarrow> 'd system \<Rightarrow> (js_error + unit) \<times> 'd system"
where
  "processQueue cdc env now sys =
     (let q = offlineQueue sys in
      if \<not> OfflineQueueService.isOnline q \<or> processingQueue q \<or> queue_length (queue q) = Some 0
      then (Inr (), sys)
      else
        (case queue q of
           NotIterable \<Rightarrow>
             (Inl (type_error ''this.queue is not iterable''),
              sys\<lparr>offlineQueue := q\<lparr>processingQueue := True\<rparr>\<rparr>)
         | Ops operationsToProcess \<Rightarrow>
             (let q1 = q\<lparr>processingQueue := True,
                        queue := Ops (fold (process_operation env) operationsToProcess operationsToProcess)\<rparr>;
                  sys1 = save_queue cdc (sys\<lparr>offlineQueue := q1\<rparr>);
                  sys2 = notifyListeners now sys1
              in (Inr (), sys2\<lparr>offlineQueue := (offlineQueue sys2)\<lparr>processingQueue := False\<rparr>\<rparr>))))"

definition getPendingOperations :: "'d OfflineQueueService \<Rightarrow> js_error + 'd QueuedOperation list" where
  "getPendingOperations q =
     (case queue q of
        NotIterable \<Rightarrow> Inl (type_error ''this.queue is not iterable'')
      | Ops ops \<Rightarrow> Inr ops)"

definition removeFromQueue ::
  "'d queue_codec \<Rightarrow> int \<Rightarrow> string \<Rightarrow> 'd system \<Rightarrow> (js_error + bool) \<times> 'd system"
where
  "removeFromQueue cdc now operationId sys =
     (case queue (offlineQueue sys) of
        NotIterable \<Rightarrow> (Inl (type_error ''this.queue.filter is not a function''), sys)
      | Ops ops \<Rightarrow>
          (let initialLength = length ops;
               ops' = filter (\<lambda>op. op_id op \<noteq> operationId) ops;
               sys1 = sys\<lparr>offlineQueue := (offlineQueue sys)\<lparr>queue := Ops ops'\<rparr>\<rparr>
           in if length ops' < initialLength
              then (Inr True, notifyListeners now (save_queue cdc sys1))
              else (Inr False, sys1)))"

text \<open>
  \<^verbatim>\<open>addToQueue\<close>; \<open>now1\<close> and \<open>now2\<close> are the two readings of the clock and \<open>random\<close> the
  nine characters taken from \<^verbatim>\<open>Math.random()\<close>. When the service is online the method
  also starts \<^verbatim>\<open>processQueue\<close> without waiting for it: that drain is a step of its own.
\<close>

definition addToQueue ::
  "'d queue_codec \<Rightarrow> op_type \<Rightarrow> 'd option \<Rightarrow> int \<Rightarrow> string \<Rightarrow> int \<Rightarrow> 'd system
     \<Rightarrow> (js_error + string) \<times> 'd system"
where
  "addToQueue cdc type' data' now1 random now2 sys =
     (let operation = \<lparr> op_id = show_int now1 @ ''_'' @ random, op_type = type',
                         data = data', timestamp = now2, retryCount = 0 \<rparr>
      in case queue (offlineQueue sys) of
           NotIterable \<Rightarrow> (Inl (type_error ''this.queue.push is not a function''), sys)
         | Ops ops \<Rightarrow>
             (Inr (op_id operation),
              notifyListeners now2
                (save_queue cdc
                   (sys\<lparr>offlineQueue := (offlineQueue sys)\<lparr>queue := Ops (ops @ [operation])\<rparr>\<rparr>))))"

definition clearQueue :: "'d queue_codec \<Rightarrow> int \<Rightarrow> 'd system \<Rightarrow> 'd system" where
  "clearQueue cdc now sys =
     notifyListeners now (save_queue cdc (sys\<lparr>offlineQueue := (offlineQueue sys)\<lparr>queue := Ops []\<rparr>\<rparr>))"

section \<open>BackgroundSyncService\<close>

record SyncStatus =
  isActive :: bool
  lastSyncTime :: "int option"
  pendingOperations :: "nat option"
  syncInProgress :: bool
  errors :: "string list"

record SyncResult =
  success :: bool
  syncedOperations :: nat
  failedOperations :: nat
  errors :: "string list"

text \<open>What \<^verbatim>\<open>syncOperation\<close> resolves to: \<^verbatim>\<open>{ success: true }\<close> or
  \<^verbatim>\<open>{ success: false, error: error.message }\<close>.\<close>

datatype op_result = Success | Failure string

definition syncCreatePost :: "'d backend \<Rightarrow> 'd QueuedOperation \<Rightarrow> js_error + unit" where
  "syncCreatePost env operation = Inr ()"

definition syncUpdateProfile :: "'d backend \<Rightarrow> 'd QueuedOperation \<Rightarrow> js_error + unit" where
  "syncUpdateProfile env operation =
     (case import_AuthService env of
        Some e \<Rightarrow> Inl e
      | None \<Rightarrow>
          (case data operation of
             None \<Rightarrow> Inl (destructure_error env ''userId'')
           | Some d \<Rightarrow> (case updateProfile env d of Some e \<Rightarrow> Inl e | None \<Rightarrow> Inr ())))"

definition syncDeletePost :: "'d backend \<Rightarrow> 'd QueuedOperation \<Rightarrow> js_error + unit" where
  "syncDeletePost env operation =
     (case data operation of
        None \<Rightarrow> Inl (destructure_error env ''postId'')
      | Some d \<Rightarrow> Inr ())"

text \<open>The \<^verbatim>\<open>switch\<close> of \<^verbatim>\<open>syncOperation\<close>.\<close>

definition sync_switch :: "'d backend \<Rightarrow> 'd QueuedOperation \<Rightarrow> js_error + unit" where
  "sync_switch env operation =
     (case op_type operation of
        CREATE_REPORT \<Rightarrow> syncCreatePost env operation
      | UPDATE_PROFILE \<Rightarrow> syncUpdateProfile env operation
      | DELETE_REPORT \<Rightarrow> syncDeletePost env operation
      | OTHER_TYPE name \<Rightarrow> Inl (unsupported_type (OTHER_TYPE name)))"

definition syncOperation ::
  "'d queue_codec \<Rightarrow> 'd backend \<Rightarrow> int \<Rightarrow> 'd QueuedOperation \<Rightarrow> 'd system \<Rightarrow> op_result \<times> 'd system"
where
  "syncOperation cdc env now operation sys =
     (case sync_switch env operation of
        Inl error \<Rightarrow> (Failure (message error), sys)
      | Inr u \<Rightarrow>
          (case removeFromQueue cdc now (op_id operation) sys of
             (Inl error, sys') \<Rightarrow> (Failure (message error), sys')
           | (Inr removed, sys') \<Rightarrow> (Success, sys')))"

text \<open>
  \<^verbatim>\<open>Promise.allSettled(batch.map(...))\<close>: every operation of the batch is attempted,
  whatever happens to the others. The operations of a batch overlap in time; each one
  touches the queue only by removing its own id, which commutes with the removals of the
  others, so they are run here one after the other, in the order of the batch.
\<close>

fun sync_batch ::
  "'d queue_codec \<Rightarrow> 'd backend \<Rightarrow> int \<Rightarrow> 'd QueuedOperation list \<Rightarrow> 'd system
     \<Rightarrow> op_result list \<times> 'd system"
where
  "sync_batch cdc env now [] sys = ([], sys)"
| "sync_batch cdc env now (operation # batch) sys =
     (case syncOperation cdc env now operation sys of
        (r, sys') \<Rightarrow> (case sync_batch cdc env now batch sys' of (rs, sys'') \<Rightarrow> (r # rs, sys'')))"

definition o_acute_error :: "string \<Rightarrow> string \<Rightarrow> string" where
  "o_acute_error i error = ''Operaci'' @ o_acute @ ''n '' @ i @ '': '' @ error"

text \<open>The inner \<^verbatim>\<open>for\<close> loop over \<^verbatim>\<open>batchResults\<close>: the counters and \<^verbatim>\<open>syncErrors\<close>.\<close>

fun tally ::
  "'d QueuedOperation list \<Rightarrow> op_result list \<Rightarrow> nat \<times> nat \<times> string list \<Rightarrow> nat \<times> nat \<times> string list"
where
  "tally (operation # batch) (Success # rs) (syncedCount, failedCount, syncErrors) =
     tally batch rs (syncedCount + 1, failedCount, syncErrors)"
| "tally (operation # batch) (Failure error # rs) (syncedCount, failedCount, syncErrors) =
     tally batch rs (syncedCount, failedCount + 1,
                     syncErrors @ [o_acute_error (op_id operation) error])"
| "tally batch rs acc = acc"

definition batchSize :: nat where
  "batchSize = 5"

text \<open>The outer loop: \<open>pending\<close> is what is left of \<^verbatim>\<open>pendingOperations\<close> from index \<open>i\<close> on.\<close>

function sync_batches ::
  "'d queue_codec \<Rightarrow> 'd backend \<Rightarrow> int \<Rightarrow> 'd QueuedOperation list
     \<Rightarrow> (nat \<times> nat \<times> string list) \<times> 'd system \<Rightarrow> (nat \<times> nat \<times> string list) \<times> 'd system"
where
  "sync_batches cdc env now pending (acc, sys) =
     (if pending = [] then (acc, sys)
      else
        (let batch = take batchSize pending in
         case sync_batch cdc env now batch sys of
           (batchResults, sys') \<Rightarrow>
             sync_batches cdc env now (drop batchSize pending)
               (tally batch batchResults acc, sys')))"
  by pat_completeness auto
termination
  by (relation "measure (\<lambda>(cdc, env, now, pending, acc). length pending)")
     (auto simp: batchSize_def)

declare sync_batches.simps [simp del]

definition already_in_progress :: string where
  "already_in_progress = ''Sincronizaci'' @ o_acute @ ''n ya en progreso''"

definition general_error :: "js_error \<Rightarrow> string" where
  "general_error error = ''Error general de sincronizaci'' @ o_acute @ ''n: '' @ toString error"

text \<open>
  The \<^verbatim>\<open>try\<close> block of \<^verbatim>\<open>performSync\<close>. \<open>now\<close> is the clock reading stored in
  \<open>lastSyncTime\<close>.
\<close>

definition performSync_try ::
  "'d queue_codec \<Rightarrow> 'd backend \<Rightarrow> int \<Rightarrow> 'd system \<Rightarrow> (js_error + SyncResult) \<times> 'd system"
where
  "performSync_try cdc env now sys =
     (case getPendingOperations (offlineQueue sys) of
        Inl error \<Rightarrow> (Inl error, sys)
      | Inr pending \<Rightarrow>
          if length pending = 0
          then (Inr \<lparr> success = True, syncedOperations = 0, failedOperations = 0,
                      SyncResult.errors = [] \<rparr>,
                sys\<lparr>backgroundSync := (backgroundSync sys)\<lparr>BackgroundSyncService.lastSyncTime := Some now\<rparr>\<rparr>)
          else
            (case sync_batches cdc env now pending ((0, 0, []), sys) of
               ((syncedCount, failedCount, syncErrors), sys') \<Rightarrow>
                 (Inr \<lparr> success = (failedCount = 0), syncedOperations = syncedCount,
                        failedOperations = failedCount, SyncResult.errors = syncErrors \<rparr>,
                  sys'\<lparr>backgroundSync := (backgroundSync sys')
                        \<lparr>BackgroundSyncService.lastSyncTime := Some now,
                         BackgroundSyncService.errors := syncErrors\<rparr>\<rparr>)))"

text \<open>
  \<^verbatim>\<open>performSync\<close>: the guard, the \<^verbatim>\<open>try\<close> block, the \<^verbatim>\<open>catch\<close> and the
  \<^verbatim>\<open>finally\<close>. The coordinator's own listeners are outside the modelled state.
\<close>

definition performSync ::
  "'d queue_codec \<Rightarrow> 'd backend \<Rightarrow> bool \<Rightarrow> int \<Rightarrow> 'd system \<Rightarrow> (js_error + SyncResult) \<times> 'd system"
where
  "performSync cdc env force now sys =
     (if BackgroundSyncService.syncInProgress (backgroundSync sys) \<and> \<not> force
      then (Inr \<lparr> success = False, syncedOperations = 0, failedOperations = 0,
                  SyncResult.errors = [already_in_progress] \<rparr>, sys)
      else
        (let sys1 = sys\<lparr>backgroundSync := (backgroundSync sys)
                      \<lparr>BackgroundSyncService.syncInProgress := True,
                       BackgroundSyncService.errors := []\<rparr>\<rparr>
         in case performSync_try cdc env now sys1 of
              (r, sys2) \<Rightarrow>
                (let (r', sys3) =
                   (case r of
                      Inr result \<Rightarrow> (Inr result, sys2)
                    | Inl error \<Rightarrow>
                        (Inr \<lparr> success = False, syncedOperations = 0, failedOperations = 0,
                               SyncResult.errors = [general_error error] \<rparr>,
                         sys2\<lparr>backgroundSync := (backgroundSync sys2)
                               \<lparr>BackgroundSyncService.errors := [general_error error]\<rparr>\<rparr>))
                 in (r', sys3\<lparr>backgroundSync := (backgroundSync sys3)
                               \<lparr>BackgroundSyncService.syncInProgress := False\<rparr>\<rparr>))))"

text \<open>\<^verbatim>\<open>getStatus\<close> of the coordinator (the queue service has a method of the same name).\<close>

definition getSyncStatus :: "'d system \<Rightarrow> int \<Rightarrow> SyncStatus" where
  "getSyncStatus sys now =
     \<lparr> isActive = syncInterval (backgroundSync sys),
       SyncStatus.lastSyncTime = BackgroundSyncService.lastSyncTime (backgroundSync sys),
       pendingOperations = queuedOperations (getStatus (offlineQueue sys) now),
       SyncStatus.syncInProgress = BackgroundSyncService.syncInProgress (backgroundSync sys),
       SyncStatus.errors = BackgroundSyncService.errors (backgroundSync sys) \<rparr>"

section \<open>CacheService\<close>

text \<open>
  A \<^verbatim>\<open>Record<string, T>\<close> is a list of key and value pairs with pairwise different keys,
  in the order \<^verbatim>\<open>Object.entries\<close> gives them (insertion order; the keys of the service,
  \<^verbatim>\<open>all_posts\<close>, \<^verbatim>\<open>user_...\<close>, query keys and URLs, are not array indices).
  \<^verbatim>\<open>cache[k]\<close> is \<open>map_of cache k\<close>, \<^verbatim>\<open>cache[k] = v\<close> is \<open>set_property cache k v\<close>
  below and \<^verbatim>\<open>delete cache[k]\<close> is \<open>AList.delete k cache\<close>.
\<close>

record 'p CacheEntry =
  data :: "'p list"
  timestamp :: int
  expiresAt :: int
  version :: string

record CacheConfig =
  maxAge :: int
  maxSize :: nat
  version :: string

record ('p, 'b) QueryCache =
  key :: string
  posts :: "'p list"
  bounds :: "'b option"
  timestamp :: int
  expiresAt :: int

text \<open>\<^verbatim>\<open>Blob.size\<close> and \<^verbatim>\<open>ImageCacheEntry.size\<close> are \<open>blob_size\<close> and \<open>entry_size\<close>.\<close>

record Blob =
  blob_size :: nat
  content :: string

record ImageCacheEntry =
  url :: string
  blob :: Blob
  timestamp :: int
  entry_size :: nat

definition POSTS_CACHE_KEY :: string where
  "POSTS_CACHE_KEY = ''spotshare_posts_cache''"

definition IMAGES_CACHE_KEY :: string where
  "IMAGES_CACHE_KEY = ''spotshare_images_cache''"

definition QUERIES_CACHE_KEY :: string where
  "QUERIES_CACHE_KEY = ''spotshare_queries_cache''"

definition POSTS_CONFIG :: CacheConfig where
  "POSTS_CONFIG = \<lparr> maxAge = 2 * 60 * 1000, maxSize = 500, CacheConfig.version = ''1.0.0'' \<rparr>"

definition QUERIES_CONFIG :: CacheConfig where
  "QUERIES_CONFIG = \<lparr> maxAge = 1 * 60 * 1000, maxSize = 50, CacheConfig.version = ''1.0.0'' \<rparr>"

record ImagesConfig =
  images_maxAge :: int
  images_maxSize :: nat
  maxEntries :: nat

definition IMAGES_CONFIG :: ImagesConfig where
  "IMAGES_CONFIG = \<lparr> images_maxAge = 24 * 60 * 60 * 1000, images_maxSize = 50 * 1024 * 1024,
                      maxEntries = 100 \<rparr>"

text \<open>
  What \<^verbatim>\<open>getPostsCache\<close>, \<^verbatim>\<open>getImagesCache\<close> and \<^verbatim>\<open>getQueriesCache\<close> return: the
  parsed document, which is \<^verbatim>\<open>null\<close>, a primitive value or an object, and the empty
  object when the item is absent or empty or when reading or parsing throws.
\<close>

datatype 'c js_value = JsNull | JsOther | JsObject 'c

definition read_cache :: "('v, 'c list) json_codec \<Rightarrow> localStorage \<Rightarrow> string \<Rightarrow> 'c list js_value" where
  "read_cache cdc ls k =
     (case getItem ls k of
        Inl error \<Rightarrow> JsObject []
      | Inr None \<Rightarrow> JsObject []
      | Inr (Some cached) \<Rightarrow>
          if cached = [] then JsObject []
          else (case parse cdc cached of
                  ParseError \<Rightarrow> JsObject []
                | ParsedNull \<Rightarrow> JsNull
                | ParsedOther \<Rightarrow> JsOther
                | Parsed cache \<Rightarrow> JsObject cache))"

type_synonym 'p posts_cache = "(string \<times> 'p CacheEntry) list"
type_synonym ('p, 'b) queries_cache = "(string \<times> ('p, 'b) QueryCache) list"
type_synonym images_cache = "(string \<times> ImageCacheEntry) list"
type_synonym 'c cache_codec = "('c, 'c) json_codec"

definition getPostsCache :: "'p posts_cache cache_codec \<Rightarrow> localStorage \<Rightarrow> 'p posts_cache js_value" where
  "getPostsCache cdc ls = read_cache cdc ls POSTS_CACHE_KEY"

definition getImagesCache :: "images_cache cache_codec \<Rightarrow> localStorage \<Rightarrow> images_cache js_value" where
  "getImagesCache cdc ls = read_cache cdc ls IMAGES_CACHE_KEY"

definition getQueriesCache ::
  "('p, 'b) queries_cache cache_codec \<Rightarrow> localStorage \<Rightarrow> ('p, 'b) queries_cache js_value" where
  "getQueriesCache cdc ls = read_cache cdc ls QUERIES_CACHE_KEY"

text \<open>
  \<^verbatim>\<open>limitCacheSize\<close>; \<open>ts\<close> reads \<^verbatim>\<open>(a[1] as any).timestamp || 0\<close>, which on a number is
  the number. \<^verbatim>\<open>Array.prototype.sort\<close> is stable, as \<open>sort_key\<close> is.
\<close>

definition limitCacheSize :: "('e \<Rightarrow> int) \<Rightarrow> (string \<times> 'e) list \<Rightarrow> nat \<Rightarrow> (string \<times> 'e) list" where
  "limitCacheSize ts cache maxSize' =
     (let entries = cache in
      if length entries > maxSize'
      then (let sortedEntries = sort_key (\<lambda>a. ts (snd a)) entries;
                toRemove = take (length entries - maxSize') sortedEntries
            in fold (\<lambda>(key', e). AList.delete key') toRemove cache)
      else cache)"

text \<open>
  \<^verbatim>\<open>cache[k] = v\<close> on a parsed cache: \<open>AList.update\<close>, which replaces the value of a key
  the object has and appends a new key. The one exception is the key \<^verbatim>\<open>__proto__\<close> when
  the object has no property of its own under it: the assignment then reaches the setter
  inherited from \<^verbatim>\<open>Object.prototype\<close>, which changes the prototype of the cache and
  gives it no entry, so that \<^verbatim>\<open>Object.entries\<close> and \<^verbatim>\<open>JSON.stringify\<close> see the cache
  as it was.
\<close>

definition set_property :: "(string \<times> 'e) list \<Rightarrow> string \<Rightarrow> 'e \<Rightarrow> (string \<times> 'e) list" where
  "set_property cache k v =
     (if k = ''__proto__'' \<and> map_of cache k = None then cache else AList.update k v cache)"

definition cannot_set_property :: js_error where
  "cannot_set_property = type_error ''Cannot set properties of a value that is not an object''"

definition cannot_read_property :: js_error where
  "cannot_read_property = type_error ''Cannot read properties of null''"

text \<open>
  \<^verbatim>\<open>cachePosts\<close>: the \<^verbatim>\<open>try\<close> block, and the method with its \<^verbatim>\<open>catch\<close>. \<open>now1\<close> and
  \<open>now2\<close> are the two readings of the clock.
\<close>

definition cachePosts_try ::
  "'p posts_cache cache_codec \<Rightarrow> localStorage \<Rightarrow> 'p list \<Rightarrow> string \<Rightarrow> int \<Rightarrow> int
     \<Rightarrow> js_error + localStorage"
where
  "cachePosts_try cdc ls posts' cacheKey now1 now2 =
     (let cacheEntry = \<lparr> CacheEntry.data = posts', CacheEntry.timestamp = now1,
                          CacheEntry.expiresAt = now2 + maxAge POSTS_CONFIG,
                          CacheEntry.version = CacheConfig.version POSTS_CONFIG \<rparr>
      in case getPostsCache cdc ls of
           JsNull \<Rightarrow> Inl cannot_set_property
         | JsOther \<Rightarrow> Inl cannot_set_property
         | JsObject cache \<Rightarrow>
             setItem ls POSTS_CACHE_KEY
               (stringify cdc
                  (limitCacheSize CacheEntry.timestamp (set_property cache cacheKey cacheEntry)
                     (maxSize POSTS_CONFIG))))"

definition cachePosts ::
  "'p posts_cache cache_codec \<Rightarrow> localStorage \<Rightarrow> 'p list \<Rightarrow> string \<Rightarrow> int \<Rightarrow> int
     \<Rightarrow> js_error + localStorage"
where
  "cachePosts cdc ls posts' cacheKey now1 now2 =
     try_catch (cachePosts_try cdc ls posts' cacheKey now1 now2) (\<lambda>error. Inr ls)"

text \<open>\<^verbatim>\<open>getCachedPosts\<close> returns the posts or \<^verbatim>\<open>null\<close> (\<open>None\<close>), and the storage.\<close>

definition getCachedPosts_try ::
  "'p posts_cache cache_codec \<Rightarrow> localStorage \<Rightarrow> string \<Rightarrow> int
     \<Rightarrow> js_error + ('p list option \<times> localStorage)"
where
  "getCachedPosts_try cdc ls cacheKey now =
     (case getPostsCache cdc ls of
        JsNull \<Rightarrow> Inl cannot_read_property
      | JsOther \<Rightarrow> Inr (None, ls)
      | JsObject cache \<Rightarrow>
          (case map_of cache cacheKey of
             None \<Rightarrow> Inr (None, ls)
           | Some entry \<Rightarrow>
               if now > CacheEntry.expiresAt entry
               then bind_err (setItem ls POSTS_CACHE_KEY (stringify cdc (AList.delete cacheKey cache)))
                      (\<lambda>ls'. Inr (None, ls'))
               else if CacheEntry.version entry \<noteq> CacheConfig.version POSTS_CONFIG
               then bind_err (setItem ls POSTS_CACHE_KEY (stringify cdc (AList.delete cacheKey cache)))
                      (\<lambda>ls'. Inr (None, ls'))
               else Inr (Some (CacheEntry.data entry), ls)))"

definition getCachedPosts ::
  "'p posts_cache cache_codec \<Rightarrow> localStorage \<Rightarrow> string \<Rightarrow> int
     \<Rightarrow> js_error + ('p list option \<times> localStorage)"
where
  "getCachedPosts cdc ls cacheKey now =
     try_catch (getCachedPosts_try cdc ls cacheKey now) (\<lambda>error. Inr (None, ls))"

definition cacheUserPosts ::
  "'p posts_cache cache_codec \<Rightarrow> localStorage \<Rightarrow> string \<Rightarrow> 'p list \<Rightarrow> int \<Rightarrow> int
     \<Rightarrow> js_error + localStorage"
where
  "cacheUserPosts cdc ls userId posts' now1 now2 =
     cachePosts cdc ls posts' (''user_'' @ userId) now1 now2"

definition getCachedUserPosts ::
  "'p posts_cache cache_codec \<Rightarrow> localStorage \<Rightarrow> string \<Rightarrow> int
     \<Rightarrow> js_error + ('p list option \<times> localStorage)"
where
  "getCachedUserPosts cdc ls userId now = getCachedPosts cdc ls (''user_'' @ userId) now"

definition cacheQuery_try ::
  "('p, 'b) queries_cache cache_codec \<Rightarrow> localStorage \<Rightarrow> string \<Rightarrow> 'p list \<Rightarrow> 'b option
     \<Rightarrow> int \<Rightarrow> int \<Rightarrow> js_error + localStorage"
where
  "cacheQuery_try cdc ls queryKey posts' bounds' now1 now2 =
     (let queryEntry = \<lparr> key = queryKey, posts = posts', bounds = bounds',
                          QueryCache.timestamp = now1,
                          QueryCache.expiresAt = now2 + maxAge QUERIES_CONFIG \<rparr>
      in case getQueriesCache cdc ls of
           JsNull \<Rightarrow> Inl cannot_set_property
         | JsOther \<Rightarrow> Inl cannot_set_property
         | JsObject cache \<Rightarrow>
             setItem ls QUERIES_CACHE_KEY
               (stringify cdc
                  (limitCacheSize QueryCache.timestamp (set_property cache queryKey queryEntry)
                     (maxSize QUERIES_CONFIG))))"

definition cacheQuery ::
  "('p, 'b) queries_cache cache_codec \<Rightarrow> localStorage \<Rightarrow> string \<Rightarrow> 'p list \<Rightarrow> 'b option
     \<Rightarrow> int \<Rightarrow> int \<Rightarrow> js_error + localStorage"
where
  "cacheQuery cdc ls queryKey posts' bounds' now1 now2 =
     try_catch (cacheQuery_try cdc ls queryKey posts' bounds' now1 now2) (\<lambda>error. Inr ls)"

definition getCachedQuery_try ::
  "('p, 'b) queries_cache cache_codec \<Rightarrow> localStorage \<Rightarrow> string \<Rightarrow> int
     \<Rightarrow> js_error + ('p list option \<times> localStorage)"
where
  "getCachedQuery_try cdc ls queryKey now =
     (case getQueriesCache cdc ls of
        JsNull \<Rightarrow> Inl cannot_read_property
      | JsOther \<Rightarrow> Inr (None, ls)
      | JsObject cache \<Rightarrow>
          (case map_of cache queryKey of
             None \<Rightarrow> Inr (None, ls)
           | Some entry \<Rightarrow>
               if now > QueryCache.expiresAt entry
               then bind_err (setItem ls QUERIES_CACHE_KEY (stringify cdc (AList.delete queryKey cache)))
                      (\<lambda>ls'. Inr (None, ls'))
               else Inr (Some (posts entry), ls)))"

definition getCachedQuery ::
  "('p, 'b) queries_cache cache_codec \<Rightarrow> localStorage \<Rightarrow> string \<Rightarrow> int
     \<Rightarrow> js_error + ('p list option \<times> localStorage)"
where
  "getCachedQuery cdc ls queryKey now =
     try_catch (getCachedQuery_try cdc ls queryKey now) (\<lambda>error. Inr (None, ls))"

subsection \<open>The image cache\<close>

text \<open>
  The database \<^verbatim>\<open>AlertaIloImageCache\<close> with its object store \<^verbatim>\<open>images\<close>, keyed by
  \<^verbatim>\<open>url\<close>. \<^verbatim>\<open>indexedDB.open(name, 1)\<close> creates a missing database; only
  \<^verbatim>\<open>saveImageToIndexedDB\<close> has the upgrade handler that creates the store, so a database
  first opened by \<^verbatim>\<open>deleteImageFromIndexedDB\<close> has none (\<open>NoStore\<close>), and a transaction on
  the missing store throws inside the request's callback, where nothing catches or sees
  it. The requests are served in the order they are made.
\<close>

datatype indexedDB = Unavailable | NoDatabase | NoStore | Store images_cache

fun saveImageToIndexedDB :: "string \<Rightarrow> ImageCacheEntry \<Rightarrow> indexedDB \<Rightarrow> indexedDB" where
  "saveImageToIndexedDB url' entry Unavailable = Unavailable"
| "saveImageToIndexedDB url' entry NoDatabase = Store [(url entry, entry)]"
| "saveImageToIndexedDB url' entry NoStore = NoStore"
| "saveImageToIndexedDB url' entry (Store images) = Store (AList.update (url entry) entry images)"

fun deleteImageFromIndexedDB :: "string \<Rightarrow> indexedDB \<Rightarrow> indexedDB" where
  "deleteImageFromIndexedDB url' Unavailable = Unavailable"
| "deleteImageFromIndexedDB url' NoDatabase = NoStore"
| "deleteImageFromIndexedDB url' NoStore = NoStore"
| "deleteImageFromIndexedDB url' (Store images) = Store (AList.delete url' images)"

definition getCachedImageBlob_try ::
  "images_cache cache_codec \<Rightarrow> localStorage \<Rightarrow> string \<Rightarrow> int \<Rightarrow> indexedDB
     \<Rightarrow> js_error + (Blob option \<times> indexedDB)"
where
  "getCachedImageBlob_try cdc ls url' now db =
     (case getImagesCache cdc ls of
        JsNull \<Rightarrow> Inl cannot_read_property
      | JsOther \<Rightarrow> Inr (None, db)
      | JsObject cache \<Rightarrow>
          (case map_of cache url' of
             None \<Rightarrow> Inr (None, db)
           | Some entry \<Rightarrow>
               if now - ImageCacheEntry.timestamp entry > images_maxAge IMAGES_CONFIG
               then Inr (None, deleteImageFromIndexedDB url' db)
               else Inr (Some (blob entry), db)))"

definition getCachedImageBlob ::
  "images_cache cache_codec \<Rightarrow> localStorage \<Rightarrow> string \<Rightarrow> int \<Rightarrow> indexedDB
     \<Rightarrow> js_error + (Blob option \<times> indexedDB)"
where
  "getCachedImageBlob cdc ls url' now db =
     try_catch (getCachedImageBlob_try cdc ls url' now db) (\<lambda>error. Inr (None, db))"

text \<open>The \<^verbatim>\<open>for\<close> loop of \<^verbatim>\<open>limitImageCacheSize\<close> over \<^verbatim>\<open>sortedEntries\<close>.\<close>

fun evict_oldest ::
  "ImageCacheEntry list \<Rightarrow> int \<Rightarrow> int \<Rightarrow> images_cache \<times> indexedDB \<Rightarrow> images_cache \<times> indexedDB"
where
  "evict_oldest [] currentSize currentCount st = st"
| "evict_oldest (entry # rest) currentSize currentCount (cache, db) =
     (if currentSize \<le> int (images_maxSize IMAGES_CONFIG)
         \<and> currentCount \<le> int (maxEntries IMAGES_CONFIG)
      then (cache, db)
      else evict_oldest rest (currentSize - int (entry_size entry)) (currentCount - 1)
             (AList.delete (url entry) cache, deleteImageFromIndexedDB (url entry) db))"

definition limitImageCacheSize :: "images_cache \<Rightarrow> indexedDB \<Rightarrow> images_cache \<times> indexedDB" where
  "limitImageCacheSize cache db =
     (let entries = map snd cache;
          totalSize = sum_list (map entry_size entries)
      in if totalSize > images_maxSize IMAGES_CONFIG \<or> length entries > maxEntries IMAGES_CONFIG
         then evict_oldest (sort_key ImageCacheEntry.timestamp entries)
                (int totalSize) (int (length entries)) (cache, db)
         else (cache, db))"

record response =
  ok :: bool
  status :: nat
  body :: Blob

text \<open>
  \<^verbatim>\<open>cacheImage\<close>. \<open>fetch\<close> is the network: it rejects or resolves to a response. The
  in-memory \<^verbatim>\<open>cache\<close> that \<^verbatim>\<open>limitImageCacheSize\<close> trims is dropped when the method
  returns: the method does not write it to the storage.
\<close>

definition cacheImage_try ::
  "images_cache cache_codec \<Rightarrow> (string \<Rightarrow> js_error + response) \<Rightarrow> localStorage \<Rightarrow> string
     \<Rightarrow> int \<Rightarrow> int \<Rightarrow> indexedDB \<Rightarrow> (js_error + unit) \<times> indexedDB"
where
  "cacheImage_try cdc fetch ls url' now1 now2 db =
     (if take 5 url' = ''blob:'' then (Inr (), db)
      else
        (case getCachedImageBlob cdc ls url' now1 db of
           Inl error \<Rightarrow> (Inl error, db)
         | Inr (Some cached, db1) \<Rightarrow> (Inr (), db1)
         | Inr (None, db1) \<Rightarrow>
             (case fetch url' of
                Inl error \<Rightarrow> (Inl error, db1)
              | Inr response \<Rightarrow>
                  if \<not> ok response
                  then (Inl (JsError ''Error'' (''HTTP '' @ decimal (status response))), db1)
                  else
                    (let imageEntry = \<lparr> url = url', blob = body response,
                                          ImageCacheEntry.timestamp = now2,
                                          entry_size = blob_size (body response) \<rparr>
                     in case getImagesCache cdc ls of
                          JsNull \<Rightarrow> (Inl cannot_set_property, db1)
                        | JsOther \<Rightarrow> (Inl cannot_set_property, db1)
                        | JsObject cache \<Rightarrow>
                            (case limitImageCacheSize (set_property cache url' imageEntry) db1 of
                               (cache', db2) \<Rightarrow>
                                 (Inr (), saveImageToIndexedDB url' imageEntry db2))))))"

definition cacheImage ::
  "images_cache cache_codec \<Rightarrow> (string \<Rightarrow> js_error + response) \<Rightarrow> localStorage \<Rightarrow> string
     \<Rightarrow> int \<Rightarrow> int \<Rightarrow> indexedDB \<Rightarrow> (js_error + unit) \<times> indexedDB"
where
  "cacheImage cdc fetch ls url' now1 now2 db =
     (case cacheImage_try cdc fetch ls url' now1 now2 db of
        (Inl error, db') \<Rightarrow> (Inr (), db')
      | (Inr u, db') \<Rightarrow> (Inr u, db'))"

text \<open>The entries of the blob store, their number and their aggregate size.\<close>

fun stored_images :: "indexedDB \<Rightarrow> ImageCacheEntry list" where
  "stored_images (Store images) = map snd images"
| "stored_images db = []"

definition aggregate_size :: "indexedDB \<Rightarrow> nat" where
  "aggregate_size db = sum_list (map entry_size (stored_images db))"

section \<open>Notions used in the statements\<close>

text \<open>What one drain of \<^verbatim>\<open>processQueue\<close> leaves of one operation: nothing when it ran or
  used up its retries, the operation with one more retry otherwise.\<close>

definition drain_one :: "'d backend \<Rightarrow> 'd QueuedOperation \<Rightarrow> 'd QueuedOperation list" where
  "drain_one env operation =
     (case executeOperation env operation of
        Inr u \<Rightarrow> []
      | Inl error \<Rightarrow>
          (if retryCount operation + 1 \<ge> MAX_RETRY_COUNT then []
           else [operation\<lparr>retryCount := retryCount operation + 1\<rparr>]))"

text \<open>Consecutive drains, each with the behaviour of the backend and the clock reading
  of its time.\<close>

fun drains :: "'d queue_codec \<Rightarrow> ('d backend \<times> int) list \<Rightarrow> 'd system \<Rightarrow> 'd system" where
  "drains cdc [] sys = sys"
| "drains cdc ((env, now) # rest) sys = drains cdc rest (snd (processQueue cdc env now sys))"

text \<open>The item under the storage key is the serialised queue of the service.\<close>

definition persisted :: "'d queue_codec \<Rightarrow> 'd system \<Rightarrow> bool" where
  "persisted cdc sys \<longleftrightarrow>
     items (storage sys) STORAGE_KEY = Some (stringify cdc (queue (offlineQueue sys)))"

text \<open>The queue service can drain: it is online, no drain is running, and the queue is an
  array of operations with pairwise different ids.\<close>

definition ready :: "'d system \<Rightarrow> 'd QueuedOperation list \<Rightarrow> bool" where
  "ready sys ops \<longleftrightarrow>
     OfflineQueueService.isOnline (offlineQueue sys) \<and> \<not> processingQueue (offlineQueue sys)
     \<and> queue (offlineQueue sys) = Ops ops \<and> distinct (map op_id ops)"

text \<open>What \<^verbatim>\<open>syncOperation\<close> answers for an operation, the line it contributes to
  \<^verbatim>\<open>syncErrors\<close>, and whether its backend call went through.\<close>

definition sync_result :: "'d backend \<Rightarrow> 'd QueuedOperation \<Rightarrow> op_result" where
  "sync_result env operation =
     (case sync_switch env operation of Inl error \<Rightarrow> Failure (message error) | Inr u \<Rightarrow> Success)"

definition failure_line :: "'d backend \<Rightarrow> 'd QueuedOperation \<Rightarrow> string list" where
  "failure_line env operation =
     (case sync_switch env operation of
        Inl error \<Rightarrow> [o_acute_error (op_id operation) (message error)]
      | Inr u \<Rightarrow> [])"

definition synced :: "'d backend \<Rightarrow> 'd QueuedOperation \<Rightarrow> bool" where
  "synced env operation \<longleftrightarrow> sync_switch env operation = Inr ()"

text \<open>The coordinator's fields that only \<^verbatim>\<open>performSync\<close> writes.\<close>

definition flags :: "BackgroundSyncService \<Rightarrow> bool \<times> int option \<times> string list" where
  "flags b = (BackgroundSyncService.syncInProgress b, BackgroundSyncService.lastSyncTime b,
              BackgroundSyncService.errors b)"

text \<open>The storage after a purge wrote \<open>doc\<close> under \<open>k\<close>, and the validity test of
  \<^verbatim>\<open>getCachedPosts\<close>.\<close>

definition purged :: "localStorage \<Rightarrow> string \<Rightarrow> string \<Rightarrow> localStorage" where
  "purged ls k doc = ls\<lparr>items := (items ls)(k \<mapsto> doc)\<rparr>"

definition valid_entry :: "'p CacheEntry \<Rightarrow> int \<Rightarrow> bool" where
  "valid_entry entry now \<longleftrightarrow>
     now \<le> CacheEntry.expiresAt entry \<and> CacheEntry.version entry = CacheConfig.version POSTS_CONFIG"




text \<open>The text after a value inside an array or an object, or at the end.\<close>

definition value_end :: "string \<Rightarrow> bool" where
  "value_end rest =
     (case rest of [] \<Rightarrow> True | c # r \<Rightarrow> c = CHR '','' \<or> c = CHR '']'' \<or> c = CHR ''}'')"

subsection \<open>Concrete values for the examples\<close>

definition example_op :: "string \<Rightarrow> op_type \<Rightarrow> int \<Rightarrow> string QueuedOperation" where
  "example_op i t r = \<lparr> op_id = i, op_type = t, QueuedOperation.data = Some ''payload'',
                      QueuedOperation.timestamp = 1000, retryCount = r \<rparr>"

definition example_codec :: "string queue_codec" where
  "example_codec = \<lparr> stringify = (\<lambda>v. case v of NotIterable \<Rightarrow> ''{}'' | Ops ops \<Rightarrow> ''['' @ concat (map op_id ops) @ '']''),
     parse = (\<lambda>s. if s = ''[ab]'' then Parsed [example_op ''a'' UPDATE_PROFILE 0, example_op ''b'' CREATE_REPORT 1]
                   else if s = ''[]'' then Parsed []
                   else if s = ''null'' then ParsedNull
                   else if s = ''{}'' then ParsedOther else ParseError) \<rparr>"

definition example_storage :: "(string \<Rightarrow> string option) \<Rightarrow> localStorage" where
  "example_storage m = \<lparr> items = m, readable = True, accepts = (\<lambda>k v. length v \<le> 64) \<rparr>"

text \<open>The message of V8 for a destructured \<^verbatim>\<open>undefined\<close> payload.\<close>

definition v8_destructure_error :: "string \<Rightarrow> js_error" where
  "v8_destructure_error property =
     JsError ''TypeError''
       (''Cannot destructure property '' @ [CHR 0x27] @ property @ [CHR 0x27] @ '' of ''
        @ [CHR 0x27] @ ''operation.data'' @ [CHR 0x27] @ '' as it is undefined.'')"

definition failing_backend :: "string backend" where
  "failing_backend =
     \<lparr> import_AuthService = None,
       updateProfile = (\<lambda>d. Some (JsError ''FirebaseError'' ''unavailable'')),
       destructure_error = v8_destructure_error \<rparr>"

definition idle_sync :: BackgroundSyncService where
  "idle_sync = \<lparr> BackgroundSyncService.syncInProgress = False, syncInterval = True,
                 BackgroundSyncService.lastSyncTime = None, BackgroundSyncService.errors = [] \<rparr>"

definition example_system :: "string queue_value \<Rightarrow> string system" where
  "example_system q =
     \<lparr> offlineQueue = \<lparr> queue = q, OfflineQueueService.isOnline = True, processingQueue = False \<rparr>,
       backgroundSync = idle_sync,
       storage = example_storage Map.empty \<rparr>"

definition example_entry :: "int \<Rightarrow> int \<Rightarrow> string CacheEntry" where
  "example_entry t e = \<lparr> CacheEntry.data = [''post1''], CacheEntry.timestamp = t,
                          CacheEntry.expiresAt = e, CacheEntry.version = ''1.0.0'' \<rparr>"

definition example_posts_codec :: "string posts_cache cache_codec" where
  "example_posts_codec =
     \<lparr> stringify = (\<lambda>c. if c = [] then ''{}'' else ''{posts}''),
       parse = (\<lambda>s. if s = ''{posts}'' then Parsed [(''all_posts'', example_entry 0 120000)]
                     else if s = ''{}'' then Parsed []
                     else if s = ''null'' then ParsedNull else ParseError) \<rparr>"

definition example_query :: "(string, unit) QueryCache" where
  "example_query = \<lparr> key = ''near'', posts = [''post1''], bounds = None,
                      QueryCache.timestamp = 0, QueryCache.expiresAt = 60000 \<rparr>"

definition example_queries_codec :: "(string, unit) queries_cache cache_codec" where
  "example_queries_codec =
     \<lparr> stringify = (\<lambda>c. if c = [] then ''{}'' else ''{queries}''),
       parse = (\<lambda>s. if s = ''{queries}'' then Parsed [(''near'', example_query)]
                     else if s = ''{}'' then Parsed []
                     else if s = ''null'' then ParsedNull else ParseError) \<rparr>"

definition example_cache_storage :: localStorage where
  "example_cache_storage =
     example_storage [POSTS_CACHE_KEY \<mapsto> ''{posts}'', QUERIES_CACHE_KEY \<mapsto> ''{queries}'']"

definition full_storage :: localStorage where
  "full_storage = example_cache_storage\<lparr>accepts := (\<lambda>k v. False)\<rparr>"

definition example_images_codec :: "images_cache cache_codec" where
  "example_images_codec =
     \<lparr> stringify = (\<lambda>c. ''{}''),
       parse = (\<lambda>s. if s = ''{}'' then Parsed [] else ParseError) \<rparr>"

definition thirty_megabytes :: nat where
  "thirty_megabytes = 30 * 1024 * 1024"

definition example_fetch :: "string \<Rightarrow> js_error + response" where
  "example_fetch u = Inr \<lparr> ok = True, status = 200,
                           body = \<lparr> blob_size = thirty_megabytes, content = u \<rparr> \<rparr>"

text \<open>The storage as \<^verbatim>\<open>cleanExpiredEntries\<close> leaves it at start-up: it writes back the
  image index it read, the empty object. No method of the service writes an entry to it.\<close>

definition images_index :: localStorage where
  "images_index = example_storage [IMAGES_CACHE_KEY \<mapsto> ''{}'']"

definition after_two_images :: indexedDB where
  "after_two_images =
     snd (cacheImage example_images_codec example_fetch images_index
            ''https://img/b'' 2000 2000
            (snd (cacheImage example_images_codec example_fetch images_index
                    ''https://img/a'' 1000 1000 NoDatabase)))"

text \<open>Seven operations whose profile update fails, and a system whose status already holds
  error lines.\<close>

definition seven_operations :: "string QueuedOperation list" where
  "seven_operations = map (\<lambda>i. example_op i UPDATE_PROFILE 0)
                        [''a'', ''b'', ''c'', ''d'', ''e'', ''f'', ''g'']"

definition system_with_errors :: "string queue_value \<Rightarrow> string list \<Rightarrow> string system" where
  "system_with_errors q lines =
     (example_system q)\<lparr>backgroundSync := idle_sync\<lparr>BackgroundSyncService.errors := lines\<rparr>\<rparr>"











section \<open>Properties of OfflineQueueService\<close>

text \<open>
  C9. \<^verbatim>\<open>getStatus\<close> reports the current clock reading as \<open>lastOnlineTime\<close> when the
  service is online and \<open>null\<close> when it is offline. The service keeps no timestamp of its
  own: after going online and then offline again, at whatever times, the status holds no
  time at all.
\<close>

theorem getStatus_lastOnlineTime:
  "lastOnlineTime (getStatus q now) = (if OfflineQueueService.isOnline q then Some now else None)
   \<and> lastOnlineTime (getStatus (on_offline (on_online q)) later) = None"
  by (simp add: getStatus_def on_online_def on_offline_def)

theorem getStatus_lastOnlineTime_witness:
  "lastOnlineTime (getStatus \<lparr> queue = Ops ([] :: unit QueuedOperation list),
       OfflineQueueService.isOnline = True, processingQueue = False \<rparr> 1700000000000)
     = Some 1700000000000
   \<and> lastOnlineTime (getStatus (on_offline (on_online \<lparr> queue = Ops ([] :: unit QueuedOperation list),
       OfflineQueueService.isOnline = True, processingQueue = False \<rparr>)) 1700000060000) = None"
  using getStatus_lastOnlineTime
    [of "\<lparr> queue = Ops ([] :: unit QueuedOperation list),
          OfflineQueueService.isOnline = True, processingQueue = False \<rparr>"
        1700000000000 1700000060000]
  by simp

text \<open>
  C10. When the stored snapshot is absent, or present but not parseable, the constructor
  returns normally with an empty queue, and the status reports no pending operation: what
  the corrupt snapshot held is gone from the service without any error reaching the caller.
\<close>

theorem loadQueue_absent_or_corrupt:
  assumes "items ls STORAGE_KEY = None
           \<or> (\<exists>s. items ls STORAGE_KEY = Some s \<and> parse cdc s = ParseError)"
  shows "\<exists>q. new_OfflineQueueService cdc navigator_onLine ls = Inr q
             \<and> queue q = Ops []
             \<and> queuedOperations (getStatus q now) = Some 0"
  using assms
  by (auto simp: new_OfflineQueueService_def loadQueueFromStorage_def loadQueueFromStorage_try_def
      try_catch_def bind_err_def getItem_def getStatus_def split: option.splits parsed.splits)

theorem loadQueue_absent_or_corrupt_witness:
  "\<exists>q. new_OfflineQueueService example_codec True (example_storage [STORAGE_KEY \<mapsto> ''[{\"id\":'']) = Inr q
       \<and> queue q = Ops [] \<and> queuedOperations (getStatus q 5) = Some 0"
  by (rule loadQueue_absent_or_corrupt) (simp add: example_storage_def example_codec_def)


subsection \<open>\<^verbatim>\<open>JSON.parse\<close> after \<^verbatim>\<open>JSON.stringify\<close>\<close>

declare is_space_def [simp]



























lemma value_end_simps [simp]:
  "value_end []" "value_end (CHR '','' # r)" "value_end (CHR '']'' # r)" "value_end (CHR ''}'' # r)"
  by (simp_all add: value_end_def)
















lemma saveQueueToStorage_returns:
  "\<exists>ls'. saveQueueToStorage cdc q ls = Inr ls'"
  by (simp add: saveQueueToStorage_def try_catch_def setItem_def)

subsection \<open>The loop of \<open>processQueue\<close>\<close>

lemma find_skip_prefix:
  "\<forall>y\<in>set pre. op_id y \<noteq> i \<Longrightarrow>
     find (\<lambda>op. op_id op = i) (pre @ rest) = find (\<lambda>op. op_id op = i) rest"
  by (induction pre) auto

lemma increment_found_skip_prefix:
  "\<forall>y\<in>set pre. op_id y \<noteq> i \<Longrightarrow>
     increment_found i (pre @ rest) = pre @ increment_found i rest"
  by (induction pre) auto

lemma filter_other_ids:
  "\<forall>y\<in>set xs. op_id y \<noteq> i \<Longrightarrow> filter (\<lambda>op. op_id op \<noteq> i) xs = xs"
  by (induction xs) auto

lemma fold_process_operation:
  "distinct (map op_id (pre @ xs)) \<Longrightarrow>
     fold (process_operation env) xs (pre @ xs) = pre @ concat (map (drain_one env) xs)"
proof (induction xs arbitrary: pre)
  case Nil
  then show ?case by simp
next
  case (Cons x xs)
  have pre_other: "\<forall>y\<in>set pre. op_id y \<noteq> op_id x"
    using Cons.prems by (auto simp: image_iff)
  have xs_other: "\<forall>y\<in>set xs. op_id y \<noteq> op_id x"
    using Cons.prems by (auto simp: image_iff)
  have d_pre_xs: "distinct (map op_id (pre @ xs))"
    using Cons.prems by auto
  have removed: "filter (\<lambda>op. op_id op \<noteq> op_id x) (pre @ y # xs) = pre @ xs"
    if "op_id y = op_id x" for y
    using that pre_other xs_other by (simp add: filter_other_ids)
  show ?case
  proof (cases "executeOperation env x")
    case (Inr u)
    then have "process_operation env x (pre @ x # xs) = pre @ xs"
      using removed [of x] by (simp add: process_operation_def)
    moreover have "drain_one env x = []"
      using Inr by (simp add: drain_one_def)
    ultimately show ?thesis
      using Cons.IH [OF d_pre_xs] by simp
  next
    case (Inl e)
    have found: "find (\<lambda>op. op_id op = op_id x) (pre @ x # xs) = Some x"
      using pre_other by (simp add: find_skip_prefix)
    have bumped: "increment_found (op_id x) (pre @ x # xs)
                    = pre @ x\<lparr>retryCount := retryCount x + 1\<rparr> # xs"
      using pre_other by (simp add: increment_found_skip_prefix)
    show ?thesis
    proof (cases "retryCount x + 1 \<ge> MAX_RETRY_COUNT")
      case True
      then have "process_operation env x (pre @ x # xs) = pre @ xs"
        using Inl found bumped removed [of "x\<lparr>retryCount := retryCount x + 1\<rparr>"]
        by (simp add: process_operation_def)
      moreover have "drain_one env x = []"
        using Inl True by (simp add: drain_one_def)
      ultimately show ?thesis
        using Cons.IH [OF d_pre_xs] by simp
    next
      case False
      then have step: "process_operation env x (pre @ x # xs)
                    = (pre @ [x\<lparr>retryCount := retryCount x + 1\<rparr>]) @ xs"
        using Inl found bumped by (simp add: process_operation_def)
      have one: "drain_one env x = [x\<lparr>retryCount := retryCount x + 1\<rparr>]"
        using Inl False by (simp add: drain_one_def)
      have "distinct (map op_id ((pre @ [x\<lparr>retryCount := retryCount x + 1\<rparr>]) @ xs))"
        using Cons.prems by auto
      from Cons.IH [OF this] show ?thesis
        using step one by simp
    qed
  qed
qed

lemma drain_queue:
  "distinct (map op_id ops) \<Longrightarrow>
     fold (process_operation env) ops ops = concat (map (drain_one env) ops)"
  using fold_process_operation [of "[]" ops env] by simp

lemma save_queue_fields:
  "offlineQueue (save_queue cdc sys) = offlineQueue sys"
  "backgroundSync (save_queue cdc sys) = backgroundSync sys"
  by (simp_all add: save_queue_def split: sum.splits)

lemma notifyListeners_fields:
  "offlineQueue (notifyListeners now sys) = offlineQueue sys"
  "storage (notifyListeners now sys) = storage sys"
  "BackgroundSyncService.errors (backgroundSync (notifyListeners now sys))
     = BackgroundSyncService.errors (backgroundSync sys)"
  "BackgroundSyncService.syncInProgress (backgroundSync (notifyListeners now sys))
     = BackgroundSyncService.syncInProgress (backgroundSync sys)"
  "BackgroundSyncService.lastSyncTime (backgroundSync (notifyListeners now sys))
     = BackgroundSyncService.lastSyncTime (backgroundSync sys)"
  by (simp_all add: notifyListeners_def on_offline_status_def startAutoSync_def stopAutoSync_def)

lemma ids_after_drain:
  "map op_id (concat (map (drain_one env) ops))
     = map op_id (filter (\<lambda>op. drain_one env op \<noteq> []) ops)"
  by (induction ops) (auto simp: drain_one_def split: sum.splits)

lemma distinct_after_drain:
  "distinct (map op_id ops) \<Longrightarrow> distinct (map op_id (concat (map (drain_one env) ops)))"
  by (simp add: ids_after_drain distinct_map_filter)

lemma processQueue_ready:
  assumes "ready sys ops"
  shows "fst (processQueue cdc env now sys) = Inr ()"
    and "ready (snd (processQueue cdc env now sys)) (concat (map (drain_one env) ops))"
    and "BackgroundSyncService.errors (backgroundSync (snd (processQueue cdc env now sys)))
           = BackgroundSyncService.errors (backgroundSync sys)"
  using assms
  by (auto simp: ready_def processQueue_def Let_def drain_queue distinct_after_drain
      save_queue_fields notifyListeners_fields)

lemma executeOperation_retryCount:
  "executeOperation env (operation\<lparr>retryCount := r\<rparr>) = executeOperation env operation"
  by (simp add: executeOperation_def split: option.splits op_type.splits)

lemma drain_keeps_absent:
  "op_id operation \<notin> op_id ` set ops \<Longrightarrow>
     op_id operation \<notin> op_id ` set (concat (map (drain_one env) ops))"
  by (auto simp: drain_one_def split: sum.splits if_splits)

lemma drain_increments:
  assumes "operation \<in> set ops" and "executeOperation env operation = Inl e"
    and "retryCount operation + 1 < MAX_RETRY_COUNT"
  shows "operation\<lparr>retryCount := retryCount operation + 1\<rparr> \<in> set (concat (map (drain_one env) ops))"
  using assms by (auto simp: drain_one_def intro!: bexI [of _ operation])

lemma drain_drops:
  assumes "distinct (map op_id ops)" and "operation \<in> set ops"
    and "executeOperation env operation = Inl e"
    and "retryCount operation + 1 \<ge> MAX_RETRY_COUNT"
  shows "op_id operation \<notin> op_id ` set (concat (map (drain_one env) ops))"
proof
  assume "op_id operation \<in> op_id ` set (concat (map (drain_one env) ops))"
  then obtain y x where x: "x \<in> set ops" and y: "y \<in> set (drain_one env x)"
    and same: "op_id y = op_id operation"
    by (auto simp: image_iff)
  from y have "op_id y = op_id x" and "drain_one env x \<noteq> []"
    by (auto simp: drain_one_def split: sum.splits if_splits)
  with same have "op_id x = op_id operation" by simp
  with assms(1,2) x have "x = operation"
    by (meson distinct_map inj_onD)
  with assms(3,4) \<open>drain_one env x \<noteq> []\<close> show False
    by (simp add: drain_one_def)
qed

lemma drains_retry:
  assumes "ready sys ops"
    and "\<forall>(env, now)\<in>set runs. \<exists>e. executeOperation env operation = Inl e"
  shows "\<exists>ops'. ready (drains cdc runs sys) ops'
           \<and> BackgroundSyncService.errors (backgroundSync (drains cdc runs sys))
               = BackgroundSyncService.errors (backgroundSync sys)
           \<and> (op_id operation \<notin> op_id ` set ops \<longrightarrow> op_id operation \<notin> op_id ` set ops')
           \<and> (operation \<in> set ops \<longrightarrow>
                (if retryCount operation + int (length runs) < MAX_RETRY_COUNT
                 then operation\<lparr>retryCount := retryCount operation + int (length runs)\<rparr> \<in> set ops'
                 else runs \<noteq> [] \<longrightarrow> op_id operation \<notin> op_id ` set ops'))"
  using assms
proof (induction runs arbitrary: sys ops operation)
  case Nil
  then show ?case by auto
next
  case (Cons run runs)
  obtain env now where run: "run = (env, now)" by (cases run)
  let ?sys1 = "snd (processQueue cdc env now sys)"
  let ?ops1 = "concat (map (drain_one env) ops)"
  from Cons.prems(2) run obtain e where fails: "executeOperation env operation = Inl e"
    by auto
  have r1: "ready ?sys1 ?ops1"
    and e1: "BackgroundSyncService.errors (backgroundSync ?sys1)
               = BackgroundSyncService.errors (backgroundSync sys)"
    using processQueue_ready [OF Cons.prems(1)] by auto
  have d: "distinct (map op_id ops)"
    using Cons.prems(1) by (simp add: ready_def)
  let ?next = "operation\<lparr>retryCount := retryCount operation + 1\<rparr>"
  have later: "\<forall>(env, now)\<in>set runs. \<exists>e. executeOperation env ?next = Inl e"
    using Cons.prems(2) by (auto simp: executeOperation_retryCount)
  from Cons.IH [OF r1 later]
  obtain ops' where r': "ready (drains cdc runs ?sys1) ops'"
    and e': "BackgroundSyncService.errors (backgroundSync (drains cdc runs ?sys1))
               = BackgroundSyncService.errors (backgroundSync ?sys1)"
    and absent': "op_id ?next \<notin> op_id ` set ?ops1 \<longrightarrow> op_id ?next \<notin> op_id ` set ops'"
    and present': "?next \<in> set ?ops1 \<longrightarrow>
           (if retryCount ?next + int (length runs) < MAX_RETRY_COUNT
            then ?next\<lparr>retryCount := retryCount ?next + int (length runs)\<rparr> \<in> set ops'
            else runs \<noteq> [] \<longrightarrow> op_id ?next \<notin> op_id ` set ops')"
    by blast
  have eq: "drains cdc (run # runs) sys = drains cdc runs ?sys1"
    by (simp add: run)
  have absent: "op_id operation \<notin> op_id ` set ops \<longrightarrow> op_id operation \<notin> op_id ` set ops'"
    using absent' drain_keeps_absent [of operation ops env] by simp
  have present: "if retryCount operation + int (length (run # runs)) < MAX_RETRY_COUNT
      then operation\<lparr>retryCount := retryCount operation + int (length (run # runs))\<rparr> \<in> set ops'
      else op_id operation \<notin> op_id ` set ops'"
    if mem: "operation \<in> set ops"
  proof (cases "retryCount operation + 1 < MAX_RETRY_COUNT")
    case True
    then have "?next \<in> set ?ops1"
      using drain_increments [OF mem fails] by simp
    with present' True show ?thesis
      by (auto simp: add.assoc MAX_RETRY_COUNT_def split: if_splits)
  next
    case False
    then have "op_id operation \<notin> op_id ` set ?ops1"
      using drain_drops [OF d mem fails] by simp
    with absent' have "op_id operation \<notin> op_id ` set ops'" by simp
    with False show ?thesis by (simp add: MAX_RETRY_COUNT_def)
  qed
  have e'': "BackgroundSyncService.errors (backgroundSync (drains cdc runs ?sys1))
               = BackgroundSyncService.errors (backgroundSync sys)"
    using e' e1 by simp
  have present_imp: "operation \<in> set ops \<longrightarrow>
      (if retryCount operation + int (length (run # runs)) < MAX_RETRY_COUNT
       then operation\<lparr>retryCount := retryCount operation + int (length (run # runs))\<rparr> \<in> set ops'
       else run # runs \<noteq> [] \<longrightarrow> op_id operation \<notin> op_id ` set ops')"
  proof
    assume "operation \<in> set ops"
    from present [OF this] show "if retryCount operation + int (length (run # runs)) < MAX_RETRY_COUNT
       then operation\<lparr>retryCount := retryCount operation + int (length (run # runs))\<rparr> \<in> set ops'
       else run # runs \<noteq> [] \<longrightarrow> op_id operation \<notin> op_id ` set ops'"
      by (simp split: if_splits)
  qed
  show ?case
    unfolding eq
    by (rule exI [of _ ops'], intro conjI) (rule r', rule e'', rule absent, rule present_imp)
qed

text \<open>Every method that changes the queue ends by writing it: when the storage takes the
  write, the stored item is the serialised queue. An operation is enqueued at the end of
  the queue with \<open>retryCount = 0\<close>.\<close>

lemma mutations_persist:
  assumes "\<And>v. accepts (storage sys) STORAGE_KEY v"
  shows "persisted cdc (clearQueue cdc now sys)"
    and "queue (offlineQueue sys) = Ops ops \<Longrightarrow>
           persisted cdc (snd (addToQueue cdc t d now1 random now2 sys))"
    and "ready sys ops \<Longrightarrow> ops \<noteq> [] \<Longrightarrow> persisted cdc (snd (processQueue cdc env now sys))"
    and "queue (offlineQueue sys) = Ops ops \<Longrightarrow> fst (removeFromQueue cdc now i sys) = Inr True \<Longrightarrow>
           persisted cdc (snd (removeFromQueue cdc now i sys))"
  using assms
  by (auto simp: persisted_def clearQueue_def addToQueue_def processQueue_def removeFromQueue_def
      ready_def Let_def notifyListeners_def save_queue_def saveQueueToStorage_def try_catch_def
      setItem_def split: if_splits)

lemma addToQueue_appends:
  assumes "queue (offlineQueue sys) = Ops ops"
  shows "\<exists>operation. queue (offlineQueue (snd (addToQueue cdc t d now1 random now2 sys)))
                        = Ops (ops @ [operation])
           \<and> retryCount operation = 0
           \<and> fst (addToQueue cdc t d now1 random now2 sys) = Inr (op_id operation)"
  using assms by (simp add: addToQueue_def Let_def notifyListeners_fields save_queue_fields)


text \<open>
  C1, as the code has it. An operation enqueued with \<open>retryCount = 0\<close> whose execution
  fails in every drain: after \<open>n\<close> drains of \<^verbatim>\<open>processQueue\<close> it is in the queue with
  \<open>retryCount = n\<close> as long as \<open>n < 3\<close>, and from the third drain on no operation with its
  id is in the queue. The drop is written to the console only: the errors list of the
  status channel is what it was before the drains.
\<close>

theorem retry_exhaustion:
  assumes "ready sys ops"
    and "operation \<in> set ops"
    and "retryCount operation = 0"
    and "\<forall>(env, now)\<in>set runs. \<exists>e. executeOperation env operation = Inl e"
  shows "\<exists>ops'. queue (offlineQueue (drains cdc runs sys)) = Ops ops'
           \<and> (if int (length runs) < MAX_RETRY_COUNT
                then operation\<lparr>retryCount := int (length runs)\<rparr> \<in> set ops'
                else op_id operation \<notin> op_id ` set ops')
           \<and> SyncStatus.errors (getSyncStatus (drains cdc runs sys) t)
               = SyncStatus.errors (getSyncStatus sys t)"
proof -
  from drains_retry [OF assms(1) assms(4), of cdc]
  obtain ops' where r: "ready (drains cdc runs sys) ops'"
    and e: "BackgroundSyncService.errors (backgroundSync (drains cdc runs sys))
              = BackgroundSyncService.errors (backgroundSync sys)"
    and p: "operation \<in> set ops \<longrightarrow>
             (if retryCount operation + int (length runs) < MAX_RETRY_COUNT
              then operation\<lparr>retryCount := retryCount operation + int (length runs)\<rparr> \<in> set ops'
              else runs \<noteq> [] \<longrightarrow> op_id operation \<notin> op_id ` set ops')"
    by blast
  have "runs \<noteq> []" if "\<not> int (length runs) < MAX_RETRY_COUNT"
    using that by (auto simp: MAX_RETRY_COUNT_def)
  with p assms(2,3) have "if int (length runs) < MAX_RETRY_COUNT
      then operation\<lparr>retryCount := int (length runs)\<rparr> \<in> set ops'
      else op_id operation \<notin> op_id ` set ops'"
    by (simp split: if_splits)
  moreover have "queue (offlineQueue (drains cdc runs sys)) = Ops ops'"
    using r by (simp add: ready_def)
  ultimately show ?thesis
    using e by (auto simp: getSyncStatus_def)
qed

theorem retry_exhaustion_witness:
  "\<exists>ops'. queue (offlineQueue (drains example_codec
              [(failing_backend, 10), (failing_backend, 20), (failing_backend, 30)]
              (example_system (Ops [example_op ''a'' UPDATE_PROFILE 0,
                                    example_op ''b'' CREATE_REPORT 1])))) = Ops ops'
     \<and> (if int (length [(failing_backend, 10 :: int), (failing_backend, 20), (failing_backend, 30)])
            < MAX_RETRY_COUNT
         then (example_op ''a'' UPDATE_PROFILE 0)
                \<lparr>retryCount := int (length [(failing_backend, 10 :: int), (failing_backend, 20),
                                              (failing_backend, 30)])\<rparr> \<in> set ops'
         else op_id (example_op ''a'' UPDATE_PROFILE 0) \<notin> op_id ` set ops')
     \<and> SyncStatus.errors (getSyncStatus (drains example_codec
              [(failing_backend, 10), (failing_backend, 20), (failing_backend, 30)]
              (example_system (Ops [example_op ''a'' UPDATE_PROFILE 0,
                                    example_op ''b'' CREATE_REPORT 1]))) 40)
         = SyncStatus.errors (getSyncStatus
              (example_system (Ops [example_op ''a'' UPDATE_PROFILE 0,
                                    example_op ''b'' CREATE_REPORT 1])) 40)"
  by (rule retry_exhaustion
        [where ops = "[example_op ''a'' UPDATE_PROFILE 0, example_op ''b'' CREATE_REPORT 1]"])
     (simp_all add: ready_def example_system_def example_op_def failing_backend_def
        executeOperation_def)

text \<open>
  The claim as stated fails: one operation that always fails is dropped by the third
  drain, the queue is empty, and the status channel reports no error.
\<close>

theorem retry_exhaustion_counterexample:
  "queue (offlineQueue (drains example_codec
       [(failing_backend, 10), (failing_backend, 20), (failing_backend, 30)]
       (example_system (Ops [example_op ''a'' UPDATE_PROFILE 0])))) = Ops []
   \<and> SyncStatus.errors (getSyncStatus (drains example_codec
       [(failing_backend, 10), (failing_backend, 20), (failing_backend, 30)]
       (example_system (Ops [example_op ''a'' UPDATE_PROFILE 0]))) 40) = []
   \<and> getStatus (offlineQueue (drains example_codec
       [(failing_backend, 10), (failing_backend, 20), (failing_backend, 30)]
       (example_system (Ops [example_op ''a'' UPDATE_PROFILE 0])))) 40
       = \<lparr> OfflineStatus.isOnline = True, lastOnlineTime = Some 40, queuedOperations = Some 0 \<rparr>"
  by (simp add: processQueue_def Let_def process_operation_def executeOperation_def
      example_system_def example_op_def failing_backend_def idle_sync_def MAX_RETRY_COUNT_def
      save_queue_def saveQueueToStorage_def try_catch_def setItem_def example_storage_def
      example_codec_def notifyListeners_def on_offline_status_def getStatus_def
      getSyncStatus_def startAutoSync_def stopAutoSync_def)

section \<open>Properties of BackgroundSyncService\<close>

lemma removeFromQueue_typed:
  assumes "queue (offlineQueue sys) = Ops q"
  shows "fst (removeFromQueue cdc now i sys) \<noteq> Inl e"
    and "queue (offlineQueue (snd (removeFromQueue cdc now i sys)))
           = Ops (filter (\<lambda>op. op_id op \<noteq> i) q)"
    and "BackgroundSyncService.errors (backgroundSync (snd (removeFromQueue cdc now i sys)))
           = BackgroundSyncService.errors (backgroundSync sys)"
    and "BackgroundSyncService.syncInProgress (backgroundSync (snd (removeFromQueue cdc now i sys)))
           = BackgroundSyncService.syncInProgress (backgroundSync sys)"
    and "BackgroundSyncService.lastSyncTime (backgroundSync (snd (removeFromQueue cdc now i sys)))
           = BackgroundSyncService.lastSyncTime (backgroundSync sys)"
  using assms
  by (simp_all add: removeFromQueue_def Let_def save_queue_fields notifyListeners_fields)

lemma syncOperation_typed:
  assumes "queue (offlineQueue sys) = Ops q"
  shows "fst (syncOperation cdc env now operation sys) = sync_result env operation"
    and "queue (offlineQueue (snd (syncOperation cdc env now operation sys)))
           = Ops (if synced env operation then filter (\<lambda>op. op_id op \<noteq> op_id operation) q else q)"
    and "BackgroundSyncService.errors (backgroundSync (snd (syncOperation cdc env now operation sys)))
           = BackgroundSyncService.errors (backgroundSync sys)"
    and "BackgroundSyncService.syncInProgress (backgroundSync (snd (syncOperation cdc env now operation sys)))
           = BackgroundSyncService.syncInProgress (backgroundSync sys)"
    and "BackgroundSyncService.lastSyncTime (backgroundSync (snd (syncOperation cdc env now operation sys)))
           = BackgroundSyncService.lastSyncTime (backgroundSync sys)"
proof -
  obtain r sys' where rm: "removeFromQueue cdc now (op_id operation) sys = (r, sys')"
    by (cases "removeFromQueue cdc now (op_id operation) sys")
  have r: "\<exists>b. r = Inr b"
    using removeFromQueue_typed(1) [OF assms, of cdc now "op_id operation"] rm
    by (cases r) auto
  note facts = removeFromQueue_typed(2-5) [OF assms, of cdc now "op_id operation", unfolded rm, simplified]
  show "fst (syncOperation cdc env now operation sys) = sync_result env operation"
    using r rm by (auto simp: syncOperation_def sync_result_def split: sum.splits)
  show "queue (offlineQueue (snd (syncOperation cdc env now operation sys)))
           = Ops (if synced env operation then filter (\<lambda>op. op_id op \<noteq> op_id operation) q else q)"
    using r rm facts assms by (auto simp: syncOperation_def synced_def split: sum.splits)
  show "BackgroundSyncService.errors (backgroundSync (snd (syncOperation cdc env now operation sys)))
           = BackgroundSyncService.errors (backgroundSync sys)"
    using r rm facts by (auto simp: syncOperation_def split: sum.splits)
  show "BackgroundSyncService.syncInProgress (backgroundSync (snd (syncOperation cdc env now operation sys)))
           = BackgroundSyncService.syncInProgress (backgroundSync sys)"
    using r rm facts by (auto simp: syncOperation_def split: sum.splits)
  show "BackgroundSyncService.lastSyncTime (backgroundSync (snd (syncOperation cdc env now operation sys)))
           = BackgroundSyncService.lastSyncTime (backgroundSync sys)"
    using r rm facts by (auto simp: syncOperation_def split: sum.splits)
qed

lemma syncOperation_flags:
  "queue (offlineQueue sys) = Ops q \<Longrightarrow>
     flags (backgroundSync (snd (syncOperation cdc env now operation sys))) = flags (backgroundSync sys)"
  by (simp add: flags_def syncOperation_typed)

lemma sync_batch_typed:
  assumes "queue (offlineQueue sys) = Ops q"
  shows "fst (sync_batch cdc env now batch sys) = map (sync_result env) batch
       \<and> queue (offlineQueue (snd (sync_batch cdc env now batch sys)))
           = Ops (filter (\<lambda>op. op_id op \<notin> op_id ` {b \<in> set batch. synced env b}) q)
       \<and> flags (backgroundSync (snd (sync_batch cdc env now batch sys))) = flags (backgroundSync sys)"
  using assms
proof (induction batch arbitrary: sys q)
  case Nil
  then show ?case by simp
next
  case (Cons operation batch)
  obtain r sys' where so: "syncOperation cdc env now operation sys = (r, sys')"
    by (cases "syncOperation cdc env now operation sys")
  let ?q' = "if synced env operation then filter (\<lambda>op. op_id op \<noteq> op_id operation) q else q"
  have r: "r = sync_result env operation"
    and q': "queue (offlineQueue sys') = Ops ?q'"
    and f': "flags (backgroundSync sys') = flags (backgroundSync sys)"
    using syncOperation_typed(1,2) [OF Cons.prems, of cdc env now operation]
      syncOperation_flags [OF Cons.prems, of cdc env now operation] so by simp_all
  obtain rs sys'' where sb: "sync_batch cdc env now batch sys' = (rs, sys'')"
    by (cases "sync_batch cdc env now batch sys'")
  from Cons.IH [OF q', of ] sb
  have rs: "rs = map (sync_result env) batch"
    and q'': "queue (offlineQueue sys'')
                = Ops (filter (\<lambda>op. op_id op \<notin> op_id ` {b \<in> set batch. synced env b}) ?q')"
    and f'': "flags (backgroundSync sys'') = flags (backgroundSync sys')"
    by simp_all
  have "filter (\<lambda>op. op_id op \<notin> op_id ` {b \<in> set batch. synced env b}) ?q'
          = filter (\<lambda>op. op_id op \<notin> op_id ` {b \<in> set (operation # batch). synced env b}) q"
    by (auto intro!: filter_cong)
  with q'' rs r f' f'' show ?case
    by (simp add: so sb)
qed

lemma tally_typed:
  "tally batch (map (sync_result env) batch) (s, f, errs)
     = (s + length (filter (synced env) batch),
        f + length (filter (\<lambda>op. \<not> synced env op) batch),
        errs @ concat (map (failure_line env) batch))"
proof (induction batch arbitrary: s f errs)
  case Nil
  then show ?case by simp
next
  case (Cons operation batch)
  show ?case
  proof (cases "sync_switch env operation")
    case (Inl e)
    then show ?thesis
      using Cons.IH [of s "f + 1" "errs @ [o_acute_error (op_id operation) (message e)]"]
      by (simp add: sync_result_def synced_def failure_line_def)
  next
    case (Inr u)
    then show ?thesis
      using Cons.IH [of "s + 1" f errs]
      by (simp add: sync_result_def synced_def failure_line_def)
  qed
qed

lemma sync_batches_typed:
  assumes "queue (offlineQueue sys) = Ops q"
  shows "fst (sync_batches cdc env now pending ((s, f, errs), sys))
           = (s + length (filter (synced env) pending),
              f + length (filter (\<lambda>op. \<not> synced env op) pending),
              errs @ concat (map (failure_line env) pending))
       \<and> queue (offlineQueue (snd (sync_batches cdc env now pending ((s, f, errs), sys))))
           = Ops (filter (\<lambda>op. op_id op \<notin> op_id ` {b \<in> set pending. synced env b}) q)
       \<and> flags (backgroundSync (snd (sync_batches cdc env now pending ((s, f, errs), sys))))
           = flags (backgroundSync sys)"
  using assms
proof (induction "length pending" arbitrary: pending s f errs sys q rule: less_induct)
  case less
  show ?case
  proof (cases "pending = []")
    case True
    then show ?thesis using less.prems by (subst (1 2 3) sync_batches.simps) simp
  next
    case False
    let ?batch = "take batchSize pending"
    let ?rest = "drop batchSize pending"
    obtain rs sys' where sb: "sync_batch cdc env now ?batch sys = (rs, sys')"
      by (cases "sync_batch cdc env now ?batch sys")
    from sync_batch_typed [OF less.prems, of cdc env now ?batch] sb
    have rs: "rs = map (sync_result env) ?batch"
      and q': "queue (offlineQueue sys')
                 = Ops (filter (\<lambda>op. op_id op \<notin> op_id ` {b \<in> set ?batch. synced env b}) q)"
      and f': "flags (backgroundSync sys') = flags (backgroundSync sys)"
      by simp_all
    have shorter: "length ?rest < length pending"
      using False by (simp add: batchSize_def)
    have split: "pending = ?batch @ ?rest" by simp
    have unfold: "sync_batches cdc env now pending ((s, f, errs), sys)
        = sync_batches cdc env now ?rest
            ((s + length (filter (synced env) ?batch),
              f + length (filter (\<lambda>op. \<not> synced env op) ?batch),
              errs @ concat (map (failure_line env) ?batch)), sys')"
      using False sb rs by (subst sync_batches.simps) (simp add: tally_typed Let_def)
    have counts: "length (filter P pending) = length (filter P ?batch) + length (filter P ?rest)" for P
      by (metis split filter_append length_append)
    have lines: "concat (map (failure_line env) pending)
                   = concat (map (failure_line env) ?batch) @ concat (map (failure_line env) ?rest)"
      by (metis split concat_append map_append)
    have sets: "set pending = set ?batch \<union> set ?rest"
      by (metis split set_append)
    have queue_eq: "filter (\<lambda>op. op_id op \<notin> op_id ` {b \<in> set ?rest. synced env b})
            (filter (\<lambda>op. op_id op \<notin> op_id ` {b \<in> set ?batch. synced env b}) q)
          = filter (\<lambda>op. op_id op \<notin> op_id ` {b \<in> set pending. synced env b}) q"
      unfolding sets by (auto intro!: filter_cong)
    from less.hyps [OF shorter q',
        where s = "s + length (filter (synced env) ?batch)"
          and f = "f + length (filter (\<lambda>op. \<not> synced env op) ?batch)"
          and errs = "errs @ concat (map (failure_line env) ?batch)"]
    show ?thesis
      unfolding unfold using f' queue_eq counts lines by (simp add: add.assoc)
  qed
qed

lemma synced_ids_distinct:
  assumes "distinct (map op_id ops)"
  shows "filter (\<lambda>op. op_id op \<notin> op_id ` {b \<in> set ops. synced env b}) ops
           = filter (\<lambda>op. \<not> synced env op) ops"
proof (rule filter_cong [OF refl])
  fix x assume x: "x \<in> set ops"
  have "synced env x" if "op_id x \<in> op_id ` {b \<in> set ops. synced env b}"
  proof -
    from that obtain b where b: "b \<in> set ops" "synced env b" "op_id x = op_id b" by auto
    with assms x have "x = b" by (meson distinct_map inj_onD)
    with b show ?thesis by simp
  qed
  moreover have "op_id x \<in> op_id ` {b \<in> set ops. synced env b}" if "synced env x"
    using that x by auto
  ultimately show "(op_id x \<notin> op_id ` {b \<in> set ops. synced env b}) = (\<not> synced env x)"
    by blast
qed


text \<open>
  C3, as the code has it. A drain of \<^verbatim>\<open>performSync\<close> over a queue with pairwise
  different ids removes exactly the operations whose backend call went through; an
  operation whose call failed stays in the queue as it was, \<open>retryCount\<close> included, and
  contributes one line to the errors of the status.
\<close>

theorem performSync_outcome:
  assumes "\<not> BackgroundSyncService.syncInProgress (backgroundSync sys) \<or> force"
    and "queue (offlineQueue sys) = Ops ops"
    and "distinct (map op_id ops)"
  shows "queue (offlineQueue (snd (performSync cdc env force now sys)))
           = Ops (filter (\<lambda>op. \<not> synced env op) ops)
       \<and> SyncStatus.errors (getSyncStatus (snd (performSync cdc env force now sys)) t)
           = concat (map (failure_line env) ops)"
proof -
  let ?sys1 = "sys\<lparr>backgroundSync := (backgroundSync sys)
                 \<lparr>BackgroundSyncService.syncInProgress := True,
                  BackgroundSyncService.errors := []\<rparr>\<rparr>"
  have q1: "queue (offlineQueue ?sys1) = Ops ops"
    using assms(2) by simp
  have guard: "(BackgroundSyncService.syncInProgress (backgroundSync sys) \<and> \<not> force) = False"
    using assms(1) by blast
  show ?thesis
  proof (cases "ops = []")
    case True
    then show ?thesis
      using q1
      by (simp add: guard performSync_def performSync_try_def getPendingOperations_def
          getSyncStatus_def)
  next
    case False
    obtain acc sys' where sb: "sync_batches cdc env now ops ((0, 0, []), ?sys1) = (acc, sys')"
      by (cases "sync_batches cdc env now ops ((0, 0, []), ?sys1)")
    from sync_batches_typed [OF q1, of cdc env now ops 0 0 "[]"] sb
    have acc: "acc = (length (filter (synced env) ops),
                      length (filter (\<lambda>op. \<not> synced env op) ops),
                      concat (map (failure_line env) ops))"
      and q': "queue (offlineQueue sys') = Ops (filter (\<lambda>op. \<not> synced env op) ops)"
      by (simp_all add: synced_ids_distinct [OF assms(3)])
    show ?thesis
      using q1 False sb acc q'
      by (simp add: guard performSync_def performSync_try_def getPendingOperations_def
          getSyncStatus_def)
  qed
qed


theorem performSync_outcome_witness:
  "queue (offlineQueue (snd (performSync example_codec failing_backend False 50
       (example_system (Ops [example_op ''a'' UPDATE_PROFILE 0, example_op ''b'' CREATE_REPORT 1])))))
     = Ops (filter (\<lambda>op. \<not> synced failing_backend op)
              [example_op ''a'' UPDATE_PROFILE 0, example_op ''b'' CREATE_REPORT 1])
   \<and> SyncStatus.errors (getSyncStatus (snd (performSync example_codec failing_backend False 50
       (example_system (Ops [example_op ''a'' UPDATE_PROFILE 0, example_op ''b'' CREATE_REPORT 1])))) 60)
     = concat (map (failure_line failing_backend)
              [example_op ''a'' UPDATE_PROFILE 0, example_op ''b'' CREATE_REPORT 1])"
  by (rule performSync_outcome)
     (simp_all add: example_system_def example_op_def idle_sync_def)

text \<open>
  The claim as stated fails: the backend call of the only queued operation fails, and after
  the drain the operation is in the queue with the \<open>retryCount\<close> it had, zero.
\<close>

theorem performSync_outcome_counterexample:
  "sync_switch failing_backend (example_op ''a'' UPDATE_PROFILE 0)
     = Inl (JsError ''FirebaseError'' ''unavailable'')
   \<and> queue (offlineQueue (snd (performSync example_codec failing_backend False 50
        (example_system (Ops [example_op ''a'' UPDATE_PROFILE 0])))))
     = Ops [example_op ''a'' UPDATE_PROFILE 0]
   \<and> retryCount (example_op ''a'' UPDATE_PROFILE 0) = 0"
  by (simp add: performSync_def performSync_try_def getPendingOperations_def sync_batches.simps
      batchSize_def syncOperation_def sync_switch_def syncUpdateProfile_def
      example_system_def example_op_def failing_backend_def idle_sync_def Let_def)

text \<open>
  C4, as the code has it. When the \<^verbatim>\<open>try\<close> block of \<^verbatim>\<open>performSync\<close> throws, the call
  still returns: its result and the errors of the status are exactly one line, the prefix
  of the \<^verbatim>\<open>catch\<close> followed by the exception as the template literal prints it,
  whatever the status held before; \<open>syncInProgress\<close> is false again, the queue and the storage are
  untouched, and the next trigger is not answered with "already in progress".
\<close>

theorem performSync_exception:
  assumes "\<not> BackgroundSyncService.syncInProgress (backgroundSync sys) \<or> force"
    and "fst (performSync_try cdc env now
           (sys\<lparr>backgroundSync := (backgroundSync sys)
                 \<lparr>BackgroundSyncService.syncInProgress := True,
                  BackgroundSyncService.errors := []\<rparr>\<rparr>)) = Inl error"
  shows "fst (performSync cdc env force now sys)
           = Inr \<lparr> success = False, syncedOperations = 0, failedOperations = 0,
                   SyncResult.errors =
                     [''Error general de sincronizaci'' @ o_acute @ ''n: '' @ toString error] \<rparr>
       \<and> SyncStatus.errors (getSyncStatus (snd (performSync cdc env force now sys)) t)
           = [''Error general de sincronizaci'' @ o_acute @ ''n: '' @ toString error]
       \<and> \<not> SyncStatus.syncInProgress (getSyncStatus (snd (performSync cdc env force now sys)) t)
       \<and> offlineQueue (snd (performSync cdc env force now sys)) = offlineQueue sys
       \<and> storage (snd (performSync cdc env force now sys)) = storage sys
       \<and> fst (performSync cdc env' False later (snd (performSync cdc env force now sys)))
           \<noteq> Inr \<lparr> success = False, syncedOperations = 0, failedOperations = 0,
                    SyncResult.errors = [already_in_progress] \<rparr>"
proof -
  let ?sys1 = "sys\<lparr>backgroundSync := (backgroundSync sys)
                 \<lparr>BackgroundSyncService.syncInProgress := True,
                  BackgroundSyncService.errors := []\<rparr>\<rparr>"
  have guard: "(BackgroundSyncService.syncInProgress (backgroundSync sys) \<and> \<not> force) = False"
    using assms(1) by blast
  have thrown: "performSync_try cdc env now ?sys1 = (Inl error, ?sys1)"
    using assms(2)
    by (auto simp: performSync_try_def getPendingOperations_def
        split: queue_value.splits prod.splits if_splits)
  have not_refused: "fst (performSync cdc env' False later s)
           \<noteq> Inr \<lparr> success = False, syncedOperations = 0, failedOperations = 0,
                    SyncResult.errors = [already_in_progress] \<rparr>"
    if "\<not> BackgroundSyncService.syncInProgress (backgroundSync s)" for s :: "'a system"
    using that
    by (auto simp: performSync_def performSync_try_def general_error_def already_in_progress_def
        Let_def split: sum.splits prod.splits if_splits)
  have idle: "\<not> BackgroundSyncService.syncInProgress
                 (backgroundSync (snd (performSync cdc env force now sys)))"
    by (simp add: performSync_def guard thrown)
  show ?thesis
    using not_refused [OF idle]
    by (simp add: performSync_def guard thrown getSyncStatus_def general_error_def)
qed

theorem performSync_exception_witness:
  "SyncStatus.errors (getSyncStatus (snd (performSync example_codec failing_backend False 50
       (system_with_errors NotIterable [''e1'', ''e2'', ''e3'']))) 60)
     = [''Error general de sincronizaci'' @ o_acute @ ''n: TypeError: this.queue is not iterable'']
   \<and> \<not> SyncStatus.syncInProgress (getSyncStatus (snd (performSync example_codec failing_backend
       False 50 (system_with_errors NotIterable [''e1'', ''e2'', ''e3'']))) 60)"
proof -
  have idle: "\<not> BackgroundSyncService.syncInProgress
                  (backgroundSync (system_with_errors NotIterable [''e1'', ''e2'', ''e3'']))
                \<or> False"
    by (simp add: system_with_errors_def example_system_def idle_sync_def)
  have thrown: "fst (performSync_try example_codec failing_backend 50
           ((system_with_errors NotIterable [''e1'', ''e2'', ''e3''])
              \<lparr>backgroundSync := (backgroundSync (system_with_errors NotIterable [''e1'', ''e2'', ''e3'']))
                 \<lparr>BackgroundSyncService.syncInProgress := True,
                  BackgroundSyncService.errors := []\<rparr>\<rparr>))
         = Inl (type_error ''this.queue is not iterable'')"
    by (simp add: performSync_try_def getPendingOperations_def system_with_errors_def
        example_system_def)
  from performSync_exception [OF idle thrown, of 60] show ?thesis
    by (simp add: type_error_def toString_def)
qed

text \<open>
  The claim as stated fails, for the errors list of the status is not a window of the most
  recent five entries. A status that holds three lines holds after an exception the line
  of the exception alone: the \<^verbatim>\<open>catch\<close> replaces the list. And nothing bounds the list:
  after a drain of seven operations that all fail, without any exception, it holds seven
  lines.
\<close>

theorem performSync_exception_counterexample:
  "SyncStatus.errors (getSyncStatus (system_with_errors NotIterable [''e1'', ''e2'', ''e3'']) 60)
     = [''e1'', ''e2'', ''e3'']
   \<and> SyncStatus.errors (getSyncStatus (snd (performSync example_codec failing_backend False 50
        (system_with_errors NotIterable [''e1'', ''e2'', ''e3'']))) 60)
     = [''Error general de sincronizaci'' @ o_acute @ ''n: TypeError: this.queue is not iterable'']
   \<and> length (SyncStatus.errors (getSyncStatus (snd (performSync example_codec failing_backend
        False 50 (example_system (Ops seven_operations)))) 60)) = 7"
  by (simp add: performSync_def performSync_try_def getPendingOperations_def sync_batches.simps
      batchSize_def syncOperation_def sync_switch_def syncUpdateProfile_def seven_operations_def
      system_with_errors_def example_system_def example_op_def failing_backend_def idle_sync_def
      Let_def getSyncStatus_def general_error_def toString_def type_error_def)

section \<open>Properties of CacheService\<close>

subsection \<open>\<open>limitCacheSize\<close>\<close>












text \<open>Under the key \<^verbatim>\<open>__proto__\<close> a put adds no entry to a cache that has none under it.\<close>

lemma set_property_proto:
  "map_of cache ''__proto__'' = None \<Longrightarrow> set_property cache ''__proto__'' e = cache"
  by (simp add: set_property_def)








subsection \<open>Reading an entry\<close>

lemma read_cache_found:
  assumes "read_cache cdc ls K = JsObject cache" and "map_of cache k = Some entry"
  shows "readable ls \<and> (\<exists>s. items ls K = Some s \<and> s \<noteq> [] \<and> parse cdc s = Parsed cache)"
  using assms
  by (auto simp: read_cache_def getItem_def split: if_splits option.splits parsed.splits)

lemma read_cache_purged:
  assumes "readable ls" and "parse cdc doc = Parsed cache"
  shows "read_cache cdc (purged ls K doc) K = JsObject (if doc = [] then [] else cache)"
  using assms by (simp add: read_cache_def getItem_def purged_def)

lemma getCachedPosts_found:
  assumes "getPostsCache cdc ls = JsObject cache" and "map_of cache k = Some entry"
  shows "getCachedPosts cdc ls k now =
           (if valid_entry entry now then Inr (Some (CacheEntry.data entry), ls)
            else if accepts ls POSTS_CACHE_KEY (stringify cdc (AList.delete k cache))
            then Inr (None, purged ls POSTS_CACHE_KEY (stringify cdc (AList.delete k cache)))
            else Inr (None, ls))"
  using assms
  by (auto simp: getCachedPosts_def getCachedPosts_try_def try_catch_def bind_err_def
      setItem_def purged_def valid_entry_def)

lemma getCachedPosts_after_purge:
  assumes "getPostsCache cdc ls = JsObject cache" and "map_of cache k = Some entry"
    and "parse cdc (stringify cdc (AList.delete k cache)) = Parsed (AList.delete k cache)"
  shows "getCachedPosts cdc (purged ls POSTS_CACHE_KEY (stringify cdc (AList.delete k cache))) k now'
           = Inr (None, purged ls POSTS_CACHE_KEY (stringify cdc (AList.delete k cache)))"
proof -
  have r: "readable ls"
    using read_cache_found [OF assms(1) [unfolded getPostsCache_def] assms(2)] by simp
  have "map_of (AList.delete k cache) k = None"
    by (simp add: delete_conv')
  then show ?thesis
    using read_cache_purged [OF r assms(3), of POSTS_CACHE_KEY]
    by (simp add: getCachedPosts_def getCachedPosts_try_def getPostsCache_def try_catch_def)
qed

lemma getCachedQuery_found:
  assumes "getQueriesCache cdc ls = JsObject cache" and "map_of cache k = Some entry"
  shows "getCachedQuery cdc ls k now =
           (if now \<le> QueryCache.expiresAt entry then Inr (Some (posts entry), ls)
            else if accepts ls QUERIES_CACHE_KEY (stringify cdc (AList.delete k cache))
            then Inr (None, purged ls QUERIES_CACHE_KEY (stringify cdc (AList.delete k cache)))
            else Inr (None, ls))"
  using assms
  by (auto simp: getCachedQuery_def getCachedQuery_try_def try_catch_def bind_err_def
      setItem_def purged_def)

lemma getCachedQuery_after_purge:
  assumes "getQueriesCache cdc ls = JsObject cache" and "map_of cache k = Some entry"
    and "parse cdc (stringify cdc (AList.delete k cache)) = Parsed (AList.delete k cache)"
  shows "getCachedQuery cdc (purged ls QUERIES_CACHE_KEY (stringify cdc (AList.delete k cache))) k now'
           = Inr (None, purged ls QUERIES_CACHE_KEY (stringify cdc (AList.delete k cache)))"
proof -
  have r: "readable ls"
    using read_cache_found [OF assms(1) [unfolded getQueriesCache_def] assms(2)] by simp
  have "map_of (AList.delete k cache) k = None"
    by (simp add: delete_conv')
  then show ?thesis
    using read_cache_purged [OF r assms(3), of QUERIES_CACHE_KEY]
    by (simp add: getCachedQuery_def getCachedQuery_try_def getQueriesCache_def try_catch_def)
qed


text \<open>
  C2, as the code has it. For an entry found in the posts cache (the user posts live in
  the same cache under \<open>user_\<close> keys), \<^verbatim>\<open>getCachedPosts\<close> returns its data if and only if
  \<open>now \<le> expiresAt\<close> and the version is the current one; for an entry of the queries
  cache, which carries no version, \<^verbatim>\<open>getCachedQuery\<close> returns its posts if and only if
  \<open>now \<le> expiresAt\<close>. Otherwise the answer is \<open>null\<close> and the cache without the entry is
  written back (the storage taking the write), after which a get at any time answers
  \<open>null\<close> and leaves the storage alone.
\<close>

theorem cache_get_validity:
  assumes "getPostsCache pc ls = JsObject cache" and "map_of cache k = Some entry"
    and "accepts ls POSTS_CACHE_KEY (stringify pc (AList.delete k cache))"
    and "parse pc (stringify pc (AList.delete k cache)) = Parsed (AList.delete k cache)"
    and "getQueriesCache qc ls = JsObject qcache" and "map_of qcache qk = Some qentry"
    and "accepts ls QUERIES_CACHE_KEY (stringify qc (AList.delete qk qcache))"
    and "parse qc (stringify qc (AList.delete qk qcache)) = Parsed (AList.delete qk qcache)"
  shows "getCachedPosts pc ls k now =
           (if now \<le> CacheEntry.expiresAt entry
                \<and> CacheEntry.version entry = CacheConfig.version POSTS_CONFIG
            then Inr (Some (CacheEntry.data entry), ls)
            else Inr (None, purged ls POSTS_CACHE_KEY (stringify pc (AList.delete k cache))))
       \<and> getCachedPosts pc (purged ls POSTS_CACHE_KEY (stringify pc (AList.delete k cache))) k later
           = Inr (None, purged ls POSTS_CACHE_KEY (stringify pc (AList.delete k cache)))
       \<and> getCachedQuery qc ls qk now =
           (if now \<le> QueryCache.expiresAt qentry
            then Inr (Some (posts qentry), ls)
            else Inr (None, purged ls QUERIES_CACHE_KEY (stringify qc (AList.delete qk qcache))))
       \<and> getCachedQuery qc (purged ls QUERIES_CACHE_KEY (stringify qc (AList.delete qk qcache))) qk later
           = Inr (None, purged ls QUERIES_CACHE_KEY (stringify qc (AList.delete qk qcache)))"
  using getCachedPosts_found [OF assms(1,2), of now] assms(3)
    getCachedPosts_after_purge [OF assms(1,2,4), of later]
    getCachedQuery_found [OF assms(5,6), of now] assms(7)
    getCachedQuery_after_purge [OF assms(5,6,8), of later]
  by (simp add: valid_entry_def)

theorem cache_get_validity_witness:
  "getCachedPosts example_posts_codec example_cache_storage ''all_posts'' 120001
     = Inr (None, purged example_cache_storage POSTS_CACHE_KEY ''{}'')
   \<and> getCachedPosts example_posts_codec (purged example_cache_storage POSTS_CACHE_KEY ''{}'')
       ''all_posts'' 5 = Inr (None, purged example_cache_storage POSTS_CACHE_KEY ''{}'')
   \<and> getCachedQuery example_queries_codec example_cache_storage ''near'' 120001
     = Inr (None, purged example_cache_storage QUERIES_CACHE_KEY ''{}'')"
proof -
  have p: "getPostsCache example_posts_codec example_cache_storage
             = JsObject [(''all_posts'', example_entry 0 120000)]"
    by (simp add: getPostsCache_def read_cache_def getItem_def example_cache_storage_def
        example_storage_def example_posts_codec_def POSTS_CACHE_KEY_def QUERIES_CACHE_KEY_def)
  have q: "getQueriesCache example_queries_codec example_cache_storage
             = JsObject [(''near'', example_query)]"
    by (simp add: getQueriesCache_def read_cache_def getItem_def example_cache_storage_def
        example_storage_def example_queries_codec_def POSTS_CACHE_KEY_def QUERIES_CACHE_KEY_def)
  have pk: "map_of [(''all_posts'', example_entry 0 120000)] ''all_posts''
              = Some (example_entry 0 120000)" by simp
  have qk: "map_of [(''near'', example_query)] ''near'' = Some example_query" by simp
  have pa: "accepts example_cache_storage POSTS_CACHE_KEY
              (stringify example_posts_codec (AList.delete ''all_posts'' [(''all_posts'', example_entry 0 120000)]))"
    by (simp add: example_cache_storage_def example_storage_def example_posts_codec_def)
  have qa: "accepts example_cache_storage QUERIES_CACHE_KEY
              (stringify example_queries_codec (AList.delete ''near'' [(''near'', example_query)]))"
    by (simp add: example_cache_storage_def example_storage_def example_queries_codec_def)
  have pr: "parse example_posts_codec (stringify example_posts_codec
              (AList.delete ''all_posts'' [(''all_posts'', example_entry 0 120000)]))
            = Parsed (AList.delete ''all_posts'' [(''all_posts'', example_entry 0 120000)])"
    by (simp add: example_posts_codec_def)
  have qr: "parse example_queries_codec (stringify example_queries_codec
              (AList.delete ''near'' [(''near'', example_query)]))
            = Parsed (AList.delete ''near'' [(''near'', example_query)])"
    by (simp add: example_queries_codec_def)
  from cache_get_validity [OF p pk pa pr q qk qa qr, of 120001 5] show ?thesis
    by (simp add: example_entry_def example_query_def example_posts_codec_def
        example_queries_codec_def)
qed

text \<open>
  The claim as stated fails: at \<open>now = expiresAt\<close>, which is not strictly before
  \<open>expiresAt\<close>, the entry of the current version is still returned.
\<close>

theorem cache_get_validity_counterexample:
  "getCachedPosts example_posts_codec example_cache_storage ''all_posts'' 120000
     = Inr (Some [''post1''], example_cache_storage)
   \<and> map_of [(''all_posts'', example_entry 0 120000)] ''all_posts'' = Some (example_entry 0 120000)
   \<and> getPostsCache example_posts_codec example_cache_storage
       = JsObject [(''all_posts'', example_entry 0 120000)]
   \<and> \<not> 120000 < CacheEntry.expiresAt (example_entry 0 120000)"
  by (simp add: getCachedPosts_def getCachedPosts_try_def try_catch_def getPostsCache_def
      read_cache_def getItem_def example_cache_storage_def example_storage_def
      example_posts_codec_def example_entry_def POSTS_CACHE_KEY_def QUERIES_CACHE_KEY_def
      POSTS_CONFIG_def)


text \<open>
  C8. The put and get methods of the posts and queries caches always return: when the
  \<^verbatim>\<open>try\<close> block throws, whatever the error, a put returns with the storage as it was
  and a get returns \<open>null\<close>. \<^verbatim>\<open>cacheImage\<close> and \<^verbatim>\<open>getCachedImageBlob\<close> always return
  as well.
\<close>

theorem cache_errors_absorbed:
  "(\<exists>ls'. cachePosts pc ls ps k now1 now2 = Inr ls')
   \<and> (\<exists>r ls'. getCachedPosts pc ls k now = Inr (r, ls'))
   \<and> (\<exists>ls'. cacheQuery qc ls qk ps b now1 now2 = Inr ls')
   \<and> (\<exists>r ls'. getCachedQuery qc ls qk now = Inr (r, ls'))
   \<and> (\<forall>e. cachePosts_try pc ls ps k now1 now2 = Inl e \<longrightarrow> cachePosts pc ls ps k now1 now2 = Inr ls)
   \<and> (\<forall>e. getCachedPosts_try pc ls k now = Inl e \<longrightarrow> getCachedPosts pc ls k now = Inr (None, ls))
   \<and> (\<forall>e. cacheQuery_try qc ls qk ps b now1 now2 = Inl e
         \<longrightarrow> cacheQuery qc ls qk ps b now1 now2 = Inr ls)
   \<and> (\<forall>e. getCachedQuery_try qc ls qk now = Inl e \<longrightarrow> getCachedQuery qc ls qk now = Inr (None, ls))
   \<and> fst (cacheImage ic fetch ls u now1 now2 db) = Inr ()
   \<and> (\<exists>r db'. getCachedImageBlob ic ls u now db = Inr (r, db'))"
proof -
  have caught: "\<exists>v. try_catch body (\<lambda>error. Inr d) = Inr v" for body :: "js_error + 'x" and d
    by (cases body) (simp_all add: try_catch_def)
  have pair: "\<exists>r ls'. x = Inr (r, ls')" if "\<exists>v. x = Inr v"
    for x :: "js_error + ('y option \<times> localStorage)"
    using that by auto
  have pair': "\<exists>r db'. x = Inr (r, db')" if "\<exists>v. x = Inr v"
    for x :: "js_error + (Blob option \<times> indexedDB)"
    using that by auto
  have image: "fst (cacheImage ic fetch ls u now1 now2 db) = Inr ()"
    by (cases "cacheImage_try ic fetch ls u now1 now2 db")
       (auto simp: cacheImage_def split: sum.splits)
  show ?thesis
    unfolding cachePosts_def getCachedPosts_def cacheQuery_def getCachedQuery_def
      getCachedImageBlob_def
    by (intro conjI caught pair pair' image) (simp_all add: try_catch_def)
qed

theorem cache_errors_absorbed_witness:
  "cachePosts example_posts_codec full_storage [''post2''] ''all_posts'' 130000 130000 = Inr full_storage
   \<and> getCachedPosts example_posts_codec full_storage ''all_posts'' 130000 = Inr (None, full_storage)"
proof -
  have put: "cachePosts_try example_posts_codec full_storage [''post2''] ''all_posts'' 130000 130000
           = Inl (JsError ''QuotaExceededError'' ''The quota has been exceeded.'')"
    by (simp add: cachePosts_try_def getPostsCache_def read_cache_def getItem_def setItem_def
        full_storage_def example_cache_storage_def example_storage_def example_posts_codec_def
        POSTS_CACHE_KEY_def QUERIES_CACHE_KEY_def)
  have get: "getCachedPosts_try example_posts_codec full_storage ''all_posts'' 130000
           = Inl (JsError ''QuotaExceededError'' ''The quota has been exceeded.'')"
    by (simp add: getCachedPosts_try_def getPostsCache_def read_cache_def getItem_def setItem_def
        bind_err_def full_storage_def example_cache_storage_def example_storage_def
        example_posts_codec_def example_entry_def POSTS_CACHE_KEY_def QUERIES_CACHE_KEY_def)
  from cache_errors_absorbed [of example_posts_codec full_storage "[''post2'']" "''all_posts''"
      130000 130000 130000] put get
  show ?thesis by blast
qed


subsection \<open>The image cache\<close>

text \<open>With the image index empty, as the service leaves it, \<^verbatim>\<open>cacheImage\<close> adds the
  fetched image to the blob store and removes nothing from it, whatever it holds.\<close>

lemma cacheImage_never_evicts:
  assumes "getImagesCache cdc ls = JsObject []"
    and "take 5 u \<noteq> ''blob:''"
    and "fetch u = Inr r" and "ok r"
    and "blob_size (body r) \<le> images_maxSize IMAGES_CONFIG"
  shows "cacheImage cdc fetch ls u now1 now2 (Store images)
           = (Inr (), Store (AList.update u \<lparr> url = u, blob = body r, ImageCacheEntry.timestamp = now2,
                                               entry_size = blob_size (body r) \<rparr> images))"
proof -
  note empty = assms(1)
  have small: "\<not> images_maxSize IMAGES_CONFIG < blob_size (body r)"
    using assms(5) by simp
  have one: "\<not> maxEntries IMAGES_CONFIG < Suc 0"
    by (simp add: IMAGES_CONFIG_def)
  show ?thesis
    using assms(2-4) small one
    by (cases "u = ''__proto__''")
       (simp_all add: cacheImage_def cacheImage_try_def getCachedImageBlob_def
         getCachedImageBlob_try_def try_catch_def empty limitImageCacheSize_def set_property_def
         Let_def)
qed


text \<open>
  C6, evaluated: two images of 30 MB each are cached one after the other. Both are in the
  blob store afterwards, 62914560 bytes against a budget of 52428800.
\<close>

theorem image_budget_exceeded:
  "stored_images after_two_images
     = [\<lparr> url = ''https://img/a'', blob = \<lparr> blob_size = thirty_megabytes, content = ''https://img/a'' \<rparr>,
          ImageCacheEntry.timestamp = 1000, entry_size = thirty_megabytes \<rparr>,
        \<lparr> url = ''https://img/b'', blob = \<lparr> blob_size = thirty_megabytes, content = ''https://img/b'' \<rparr>,
          ImageCacheEntry.timestamp = 2000, entry_size = thirty_megabytes \<rparr>]
   \<and> aggregate_size after_two_images = 62914560
   \<and> images_maxSize IMAGES_CONFIG = 52428800
   \<and> \<not> aggregate_size after_two_images \<le> images_maxSize IMAGES_CONFIG"
  by (simp add: after_two_images_def cacheImage_def cacheImage_try_def getCachedImageBlob_def
      getCachedImageBlob_try_def try_catch_def getImagesCache_def read_cache_def getItem_def
      example_storage_def images_index_def example_images_codec_def limitImageCacheSize_def
      set_property_def example_fetch_def thirty_megabytes_def IMAGES_CONFIG_def
      aggregate_size_def IMAGES_CACHE_KEY_def)

end
